theory Spec2Isabelle
  imports Complex_Main "HOL-Library.Word"
begin

unbundle bit_operations_syntax

section \<open>JavaScript values used by the library\<close>

text \<open>
  \<open>String.prototype.split\<close> with a one-character separator: the text is cut at every
  occurrence of the separator, so the result is never empty (the empty text splits into
  one empty part).
\<close>

fun split_on :: "char \<Rightarrow> string \<Rightarrow> string list" where
  "split_on c [] = [[]]"
| "split_on c (x # xs) =
     (if x = c then [] # split_on c xs
      else (case split_on c xs of [] \<Rightarrow> [[x]] | p # ps \<Rightarrow> (x # p) # ps))"

text \<open>Reading \<open>parts[i]\<close>: \<open>undefined\<close> (here \<open>None\<close>) out of range.\<close>

definition nth_opt :: "'a list \<Rightarrow> nat \<Rightarrow> 'a option" where
  "nth_opt xs i = (if i < length xs then Some (xs ! i) else None)"

text \<open>
  A value that is a string or \<open>undefined\<close>. It is truthy when it is a non-empty string;
  \<open>a || b\<close> is \<open>a\<close> when \<open>a\<close> is truthy and \<open>b\<close> otherwise.
\<close>

definition truthy :: "string option \<Rightarrow> bool" where
  "truthy v = (case v of None \<Rightarrow> False | Some s \<Rightarrow> s \<noteq> [])"

definition js_or :: "string option \<Rightarrow> string option \<Rightarrow> string option" where
  "js_or a b = (if truthy a then a else b)"

text \<open>
  \<open>Number.prototype.toString(16)\<close> on an integer: lowercase digits, most significant
  first, a leading minus sign for a negative number.
\<close>

definition hex_digit :: "nat \<Rightarrow> char" where
  "hex_digit n = ''0123456789abcdef'' ! n"

function toString16 :: "nat \<Rightarrow> string" where
  "toString16 n =
     (if n < 16 then [hex_digit n] else toString16 (n div 16) @ [hex_digit (n mod 16)])"
  by pat_completeness auto
termination
  by (relation "measure id") auto

definition int_toString16 :: "int \<Rightarrow> string" where
  "int_toString16 i =
     (if i < 0 then CHR ''-'' # toString16 (nat (- i)) else toString16 (nat i))"

text \<open>
  \<open>Math.random()\<close> is the runtime's: the sequence of numbers its successive calls return
  is a parameter \<open>rnd :: nat \<Rightarrow> real\<close>, and a function that draws from it takes the
  number of draws made so far and returns the new count. ECMAScript promises
  \<open>0 \<le> Math.random() < 1\<close>; theorems that need the range assume it.
\<close>

definition in_unit_interval :: "(nat \<Rightarrow> real) \<Rightarrow> bool" where
  "in_unit_interval rnd = (\<forall>i. 0 \<le> rnd i \<and> rnd i < 1)"

text \<open>\<open>Math.floor(r * 16).toString(16)\<close>\<close>

definition random_hex_digit :: "real \<Rightarrow> string" where
  "random_hex_digit r = int_toString16 \<lfloor>r * 16\<rfloor>"

text \<open>
  \<open>Array.from({ length: k }, () => Math.floor(Math.random() * 16).toString(16)).join('')\<close>,
  the first draw being draw number \<open>n\<close>.
\<close>

definition random_hex :: "(nat \<Rightarrow> real) \<Rightarrow> nat \<Rightarrow> nat \<Rightarrow> string" where
  "random_hex rnd n k = concat (map (\<lambda>i. random_hex_digit (rnd (n + i))) [0..<k])"

section \<open>Data model\<close>

text \<open>An SQS message attribute as the Lambda event delivers it.\<close>

record message_attribute =
  dataType :: string
  stringValue :: "string option"

text \<open>
  The object handed to \<open>extractIncomingTraceContext\<close>: an SQS record (with
  \<open>messageAttributes\<close>) or an API Gateway event (with \<open>headers\<close>). A field the object does
  not have is \<open>None\<close>.
\<close>

record inbound_record =
  messageId :: string
  receiptHandle :: string
  body :: string
  messageAttributes :: "(string \<rightharpoonup> message_attribute) option"
  headers :: "(string \<rightharpoonup> string) option"
  eventSourceARN :: "string option"

text \<open>The object both \<open>getTraceContext\<close> and \<open>extractIncomingTraceContext\<close> return.\<close>

record trace_context =
  traceId :: "string option"
  spanId :: "string option"
  traceparent :: string

text \<open>The OpenTelemetry span context read by \<open>getTraceContext\<close>.\<close>

record span_context =
  sc_traceId :: string
  sc_spanId :: string
  traceFlags :: "8 word"

section \<open>ObservabilityManager: trace context\<close>

text \<open>The flags text: \<open>01\<close> when \<open>sc.traceFlags & 0x01\<close> is not zero, \<open>00\<close> otherwise.\<close>

definition flags_text :: "8 word \<Rightarrow> string" where
  "flags_text f = (if f AND 1 \<noteq> 0 then ''01'' else ''00'')"

text \<open>The template \<open>`00-${traceId}-${spanId}-${flags}`\<close>.\<close>

definition render_traceparent :: "string \<Rightarrow> string \<Rightarrow> string \<Rightarrow> string" where
  "render_traceparent tid sid fl = ''00-'' @ tid @ ''-'' @ sid @ ''-'' @ fl"

text \<open>
  \<open>getTraceContext\<close>, as a function of \<open>this.currentSpan\<close> (given by its span context,
  \<open>None\<close> when there is no current span).
\<close>

definition getTraceContext :: "span_context option \<Rightarrow> trace_context option" where
  "getTraceContext currentSpan =
     (case currentSpan of
        None \<Rightarrow> None
      | Some sc \<Rightarrow>
          Some \<lparr>traceId = Some (sc_traceId sc), spanId = Some (sc_spanId sc),
                traceparent = render_traceparent (sc_traceId sc) (sc_spanId sc)
                                (flags_text (traceFlags sc))\<rparr>)"

text \<open>
  The object built from a carrier text in both branches of
  \<open>extractIncomingTraceContext\<close>: \<open>parts = text.split('-')\<close>, then
  \<open>{traceId: parts[1], spanId: parts[2], traceparent: text}\<close>.
\<close>

definition context_of_text :: "string \<Rightarrow> trace_context" where
  "context_of_text tp =
     (let parts = split_on CHR ''-'' tp
      in \<lparr>traceId = nth_opt parts 1, spanId = nth_opt parts 2, traceparent = tp\<rparr>)"

text \<open>\<open>attrs.name?.stringValue\<close>\<close>

definition attr_string :: "(string \<rightharpoonup> message_attribute) \<Rightarrow> string \<Rightarrow> string option" where
  "attr_string attrs name = (case attrs name of None \<Rightarrow> None | Some a \<Rightarrow> stringValue a)"

definition extractIncomingTraceContext :: "inbound_record \<Rightarrow> trace_context option" where
  "extractIncomingTraceContext record =
     (case (case messageAttributes record of
              None \<Rightarrow> None
            | Some attrs \<Rightarrow>
                (case js_or (attr_string attrs ''traceparent'')
                            (attr_string attrs ''w3c_traceparent_orig'') of
                   None \<Rightarrow> None
                 | Some tp \<Rightarrow> if tp \<noteq> [] then Some (context_of_text tp) else None)) of
        Some tc \<Rightarrow> Some tc
      | None \<Rightarrow>
          (case headers record of
             None \<Rightarrow> None
           | Some hs \<Rightarrow>
               (case hs ''traceparent'' of
                  None \<Rightarrow> None
                | Some tp \<Rightarrow> if tp \<noteq> [] then Some (context_of_text tp) else None)))"

text \<open>
  The three carriers of a record as the recoverer reads them: the string value of the
  primary and of the backup attribute, and the \<open>traceparent\<close> header; \<open>None\<close> where the
  record has no such attribute, string value or header.
\<close>

definition primary_carrier :: "inbound_record \<Rightarrow> string option" where
  "primary_carrier record =
     (case messageAttributes record of
        None \<Rightarrow> None
      | Some attrs \<Rightarrow> attr_string attrs ''traceparent'')"

definition backup_carrier :: "inbound_record \<Rightarrow> string option" where
  "backup_carrier record =
     (case messageAttributes record of
        None \<Rightarrow> None
      | Some attrs \<Rightarrow> attr_string attrs ''w3c_traceparent_orig'')"

definition header_carrier :: "inbound_record \<Rightarrow> string option" where
  "header_carrier record =
     (case headers record of None \<Rightarrow> None | Some hs \<Rightarrow> hs ''traceparent'')"

text \<open>
  Well-formedness of a trace-context text as the specification words it: exactly four
  dash-separated segments of lengths 2, 32, 16 and 2, all lowercase hexadecimal.
\<close>

definition is_lower_hex :: "char \<Rightarrow> bool" where
  "is_lower_hex c = (c \<in> set ''0123456789abcdef'')"

definition well_formed :: "string \<Rightarrow> bool" where
  "well_formed tp =
     (case split_on CHR ''-'' tp of
        [v, tid, sid, fl] \<Rightarrow>
          length v = 2 \<and> length tid = 32 \<and> length sid = 16 \<and> length fl = 2
          \<and> list_all is_lower_hex (v @ tid @ sid @ fl)
      | _ \<Rightarrow> False)"

text \<open>An SQS record that carries the given message attributes and nothing else.\<close>

definition sqs_record :: "(string \<rightharpoonup> message_attribute) \<Rightarrow> inbound_record" where
  "sqs_record attrs =
     \<lparr>messageId = ''m-1'', receiptHandle = ''rh-1'', body = ''{}'',
      messageAttributes = Some attrs, headers = None, eventSourceARN = None\<rparr>"

definition string_attr :: "string \<Rightarrow> message_attribute" where
  "string_attr s = \<lparr>dataType = ''String'', stringValue = Some s\<rparr>"

section \<open>Fallback generators\<close>

text \<open>
  \<open>SNSPublisher.generateFallbackTrace\<close> (library) and \<open>generateW3CTraceparent\<close>
  (publisher): 32 random hexadecimal digits, then 16 more, in the fixed frame
  \<open>00-...-...-01\<close>. Each returns the text and the new draw count.
\<close>

definition generateFallbackTrace :: "(nat \<Rightarrow> real) \<Rightarrow> nat \<Rightarrow> string \<times> nat" where
  "generateFallbackTrace rnd n =
     (let traceId = random_hex rnd n 32;
          spanId = random_hex rnd (n + 32) 16
      in (''00-'' @ traceId @ ''-'' @ spanId @ ''-01'', n + 48))"

definition generateW3CTraceparent :: "(nat \<Rightarrow> real) \<Rightarrow> nat \<Rightarrow> string \<times> nat" where
  "generateW3CTraceparent rnd n =
     (let traceId = random_hex rnd n 32;
          spanId = random_hex rnd (n + 32) 16;
          flags = ''01''
      in (''00-'' @ traceId @ ''-'' @ spanId @ ''-'' @ flags, n + 48))"

section \<open>SQSProcessor\<close>

subsection \<open>JSON values and \<open>parseMessage\<close>\<close>

text \<open>
  What \<open>JSON.parse\<close> returns. A number is a double, taken here as the real it denotes.
  An object is the list of its own properties, one entry per key.
\<close>

datatype json =
  JNull
  | JBool bool
  | JNumber real
  | JString string
  | JArray "json list"
  | JObject "(string \<times> json) list"

datatype js_error = Error string | SyntaxError string | TypeError string

fun message :: "js_error \<Rightarrow> string" where
  "message (Error m) = m"
| "message (SyntaxError m) = m"
| "message (TypeError m) = m"

text \<open>
  Reading a property of a parsed value, for the two names \<open>parseMessage\<close> reads
  (\<open>Type\<close>, \<open>Message\<close>): reading from \<open>null\<close> throws a TypeError (with Node's message,
  which names the property between single quotes), an object gives its own property or
  \<open>undefined\<close>, and a number, boolean, string or array has no property of these names.
\<close>

definition get_prop :: "json \<Rightarrow> string \<Rightarrow> js_error + json option" where
  "get_prop v name =
     (case v of
        JNull \<Rightarrow>
          Inl (TypeError (''Cannot read properties of null (reading '' @ [CHR 0x27] @ name
                          @ [CHR 0x27] @ '')''))
      | JObject props \<Rightarrow> Inr (map_of props name)
      | _ \<Rightarrow> Inr None)"

text \<open>Truthiness of a parsed value or \<open>undefined\<close>.\<close>

definition json_truthy :: "json option \<Rightarrow> bool" where
  "json_truthy v =
     (case v of
        None \<Rightarrow> False
      | Some JNull \<Rightarrow> False
      | Some (JBool b) \<Rightarrow> b
      | Some (JNumber x) \<Rightarrow> x \<noteq> 0
      | Some (JString s) \<Rightarrow> s \<noteq> []
      | Some _ \<Rightarrow> True)"

text \<open>
  \<open>JSON.parse\<close> is the runtime's: a parameter \<open>JSON_parse\<close> that returns the parsed value
  or the message of the SyntaxError it throws. It converts its argument to a string first;
  \<open>ToString\<close> is the runtime's conversion of a value that is not a string.
\<close>

definition parse_value ::
  "(string \<Rightarrow> string + json) \<Rightarrow> (json \<Rightarrow> string) \<Rightarrow> json \<Rightarrow> js_error + json" where
  "parse_value JSON_parse ToString v =
     (case JSON_parse (case v of JString s \<Rightarrow> s | _ \<Rightarrow> ToString v) of
        Inl m \<Rightarrow> Inl (SyntaxError m)
      | Inr x \<Rightarrow> Inr x)"

text \<open>The body of the \<open>try\<close> block of \<open>parseMessage\<close>.\<close>

definition parseMessage_try ::
  "(string \<Rightarrow> string + json) \<Rightarrow> (json \<Rightarrow> string) \<Rightarrow> inbound_record \<Rightarrow> js_error + json" where
  "parseMessage_try JSON_parse ToString record =
     (case JSON_parse (body record) of
        Inl m \<Rightarrow> Inl (SyntaxError m)
      | Inr b \<Rightarrow>
          (case get_prop b ''Type'' of
             Inl e \<Rightarrow> Inl e
           | Inr ty \<Rightarrow>
               if ty = Some (JString ''Notification'') then
                 (case get_prop b ''Message'' of
                    Inl e \<Rightarrow> Inl e
                  | Inr None \<Rightarrow> Inr b
                  | Inr (Some msg) \<Rightarrow>
                      if json_truthy (Some msg) then parse_value JSON_parse ToString msg
                      else Inr b)
               else Inr b))"

text \<open>
  \<open>parseMessage\<close>: whatever the \<open>try\<close> block throws is replaced by
  \<open>new Error(`Failed to parse message: ${error.message}`)\<close>.
\<close>

definition parseMessage ::
  "(string \<Rightarrow> string + json) \<Rightarrow> (json \<Rightarrow> string) \<Rightarrow> inbound_record \<Rightarrow> js_error + json" where
  "parseMessage JSON_parse ToString record =
     (case parseMessage_try JSON_parse ToString record of
        Inl e \<Rightarrow> Inl (Error (''Failed to parse message: '' @ message e))
      | Inr v \<Rightarrow> Inr v)"

subsection \<open>\<open>ObservabilityManager.init\<close>\<close>

text \<open>
  The object passed as \<open>context\<close>: the AWS Lambda context. \<open>init(event, context)\<close> calls
  \<open>trace.getSpan(context.active())\<close>, and inside \<open>init\<close> the name \<open>context\<close> is the
  parameter, not the OpenTelemetry import of the same name. So the call reads the member
  \<open>active\<close> of the object passed in: \<open>None\<close> when the object has no such method (the Lambda
  context has none), and otherwise the span that \<open>trace.getSpan\<close> finds in what the method
  returns (\<open>Some None\<close> when it finds no span).
\<close>

record lambda_context =
  awsRequestId :: string
  functionName :: string
  functionVersion :: string
  active :: "span_context option option"

text \<open>
  \<open>init\<close> returns the manager's \<open>currentSpan\<close>, or the TypeError of calling a member that
  is not a function. Log lines and span attributes are output only and are left out.
\<close>

definition init :: "lambda_context \<Rightarrow> js_error + span_context option" where
  "init lambdaContext =
     (case active lambdaContext of
        None \<Rightarrow> Inl (TypeError ''context.active is not a function'')
      | Some sp \<Rightarrow> Inr sp)"

subsection \<open>\<open>processBatch\<close>\<close>

record sqs_event =
  Records :: "inbound_record list option"

text \<open>The second argument of the business callback (the logger is output only).\<close>

record callback_info =
  cb_record :: inbound_record
  cb_traceContext :: "trace_context option"
  cb_messageId :: string

text \<open>
  The business callback may have effects of its own and may depend on them: it takes the
  state of the world it acts on and returns the new one, with its result or the error it
  throws.
\<close>

type_synonym ('s, 'r) business_logic =
  "json \<Rightarrow> callback_info \<Rightarrow> 's \<Rightarrow> (js_error + 'r) \<times> 's"

datatype 'r record_status = success 'r | error string

fun failed :: "'r record_status \<Rightarrow> bool" where
  "failed (error m) = True"
| "failed (success r) = False"

record 'r result_entry =
  entry_messageId :: string
  status :: "'r record_status"

record batch_item_failure =
  itemIdentifier :: string

record batch_response =
  batchItemFailures :: "batch_item_failure list"

text \<open>
  The \<open>try\<close> block of the loop body for one record: recover the trace context, unwrap the
  message, call the business logic (through \<open>monitor\<close>, which rethrows what it throws).
\<close>

definition try_record ::
  "(string \<Rightarrow> string + json) \<Rightarrow> (json \<Rightarrow> string) \<Rightarrow> ('s, 'r) business_logic
   \<Rightarrow> inbound_record \<Rightarrow> 's \<Rightarrow> (js_error + 'r) \<times> 's" where
  "try_record JSON_parse ToString businessLogic record s =
     (let traceContext = extractIncomingTraceContext record
      in case parseMessage JSON_parse ToString record of
           Inl e \<Rightarrow> (Inl e, s)
         | Inr messageData \<Rightarrow>
             businessLogic messageData
               \<lparr>cb_record = record, cb_traceContext = traceContext,
                cb_messageId = messageId record\<rparr> s)"

text \<open>
  The loop \<open>for (const record of event.Records || [])\<close> over the accumulators \<open>results\<close>
  and \<open>failures\<close>: on success one entry is pushed to \<open>results\<close>; in the \<open>catch\<close> branch
  the identity is pushed to \<open>failures\<close> and an error entry to \<open>results\<close>.
\<close>

fun process_records ::
  "(string \<Rightarrow> string + json) \<Rightarrow> (json \<Rightarrow> string) \<Rightarrow> ('s, 'r) business_logic
   \<Rightarrow> inbound_record list \<Rightarrow> 'r result_entry list \<times> batch_item_failure list \<times> 's
   \<Rightarrow> 'r result_entry list \<times> batch_item_failure list \<times> 's" where
  "process_records JSON_parse ToString businessLogic [] acc = acc"
| "process_records JSON_parse ToString businessLogic (record # rest) (results, failures, s) =
     (case try_record JSON_parse ToString businessLogic record s of
        (Inr result, s') \<Rightarrow>
          process_records JSON_parse ToString businessLogic rest
            (results @ [\<lparr>entry_messageId = messageId record, status = success result\<rparr>],
             failures, s')
      | (Inl e, s') \<Rightarrow>
          process_records JSON_parse ToString businessLogic rest
            (results @ [\<lparr>entry_messageId = messageId record, status = error (message e)\<rparr>],
             failures @ [\<lparr>itemIdentifier = messageId record\<rparr>], s'))"

text \<open>
  \<open>processBatch\<close>: \<open>init\<close> runs first, outside any \<open>try\<close>, so what it throws rejects the
  whole call; otherwise the loop runs and \<open>{batchItemFailures: failures}\<close> is returned.
  The local \<open>results\<close> list is returned beside it here, so that statements can speak of
  the statuses recorded.
\<close>

definition processBatch ::
  "(string \<Rightarrow> string + json) \<Rightarrow> (json \<Rightarrow> string) \<Rightarrow> sqs_event \<Rightarrow> lambda_context
   \<Rightarrow> ('s, 'r) business_logic \<Rightarrow> 's
   \<Rightarrow> (js_error + batch_response \<times> 'r result_entry list) \<times> 's" where
  "processBatch JSON_parse ToString event lambdaContext businessLogic s =
     (case init lambdaContext of
        Inl e \<Rightarrow> (Inl e, s)
      | Inr obs \<Rightarrow>
          (case process_records JSON_parse ToString businessLogic
                  (case Records event of None \<Rightarrow> [] | Some rs \<Rightarrow> rs) ([], [], s) of
             (results, failures, s') \<Rightarrow>
               (Inr (\<lparr>batchItemFailures = failures\<rparr>, results), s')))"

section \<open>SNSPublisher\<close>

record sns_attribute =
  DataType :: string
  StringValue :: string

text \<open>The input of the \<open>PublishCommand\<close> handed to \<open>sns.send\<close>.\<close>

record publish_command =
  TopicArn :: "string option"
  Message :: string
  MessageAttributes :: "string \<rightharpoonup> sns_attribute"

text \<open>
  \<open>options.publishOptions\<close>: fields of the command the caller sets directly. It is spread
  into the command after the library's own fields, so a field it carries replaces the
  library's.
\<close>

record publish_overrides =
  po_TopicArn :: "string option"
  po_Message :: "string option"
  po_MessageAttributes :: "(string \<rightharpoonup> sns_attribute) option"

record publish_options =
  opt_messageAttributes :: "(string \<rightharpoonup> sns_attribute) option"
  publishOptions :: "publish_overrides option"

text \<open>\<open>traceContext?.traceparent || this.generateFallbackTrace()\<close>\<close>

definition traceparent_or_fallback ::
  "trace_context option \<Rightarrow> (nat \<Rightarrow> real) \<Rightarrow> nat \<Rightarrow> string \<times> nat" where
  "traceparent_or_fallback traceContext rnd n =
     (case traceContext of
        None \<Rightarrow> generateFallbackTrace rnd n
      | Some tc \<Rightarrow>
          if traceparent tc \<noteq> [] then (traceparent tc, n) else generateFallbackTrace rnd n)"

text \<open>
  The body of \<open>publish\<close> for a manager whose \<open>currentSpan\<close> is given: the attribute map is
  the caller's \<open>options.messageAttributes\<close> with the two carrier entries written over it,
  each carrier value computed by its own evaluation of
  \<open>traceContext?.traceparent || this.generateFallbackTrace()\<close>. The result is the command
  sent and the new draw count; \<open>JSON_stringify\<close> is the runtime's.
\<close>

definition publish_with ::
  "span_context option \<Rightarrow> ('m \<Rightarrow> string) \<Rightarrow> (nat \<Rightarrow> real) \<Rightarrow> nat
   \<Rightarrow> string \<Rightarrow> 'm \<Rightarrow> publish_options \<Rightarrow> publish_command \<times> nat" where
  "publish_with currentSpan JSON_stringify rnd n topicArn msg options =
     (let traceContext = getTraceContext currentSpan;
          (primary, n1) = traceparent_or_fallback traceContext rnd n;
          (backup, n2) = traceparent_or_fallback traceContext rnd n1;
          messageAttributes =
            (case opt_messageAttributes options of None \<Rightarrow> Map.empty | Some m \<Rightarrow> m)
              (''traceparent'' \<mapsto> \<lparr>DataType = ''String'', StringValue = primary\<rparr>,
               ''w3c_traceparent_orig'' \<mapsto> \<lparr>DataType = ''String'', StringValue = backup\<rparr>);
          command = \<lparr>TopicArn = Some topicArn, Message = JSON_stringify msg,
                     MessageAttributes = messageAttributes\<rparr>
      in (case publishOptions options of
            None \<Rightarrow> command
          | Some po \<Rightarrow>
              \<lparr>TopicArn = (case po_TopicArn po of None \<Rightarrow> TopicArn command | Some t \<Rightarrow> Some t),
               Message = (case po_Message po of None \<Rightarrow> Message command | Some m \<Rightarrow> m),
               MessageAttributes =
                 (case po_MessageAttributes po of
                    None \<Rightarrow> MessageAttributes command
                  | Some attrs \<Rightarrow> attrs)\<rparr>,
          n2))"

text \<open>
  \<open>publish\<close> builds its manager with \<open>new ObservabilityManager(this.serviceName)\<close> and
  never calls \<open>init\<close> on it, so its \<open>currentSpan\<close> is the constructor's \<open>null\<close>.
\<close>

definition publish ::
  "('m \<Rightarrow> string) \<Rightarrow> (nat \<Rightarrow> real) \<Rightarrow> nat \<Rightarrow> string \<Rightarrow> 'm \<Rightarrow> publish_options
   \<Rightarrow> publish_command \<times> nat" where
  "publish = publish_with None"

definition no_options :: publish_options where
  "no_options = \<lparr>opt_messageAttributes = None, publishOptions = None\<rparr>"

section \<open>Publisher handler\<close>

text \<open>
  What the handler reads from its surroundings: the span and the span context the
  OpenTelemetry API finds in the active context, and two environment variables.
\<close>

record ambient =
  activeSpan :: "span_context option"
  xrayTraceId :: "string option"
  activeSpanContext :: "span_context option"
  TOPIC_ARN :: "string option"

text \<open>
  The regular expression
  \<open>/Root=1-([a-f0-9]{8})-([a-f0-9]{24});Parent=([a-f0-9]{16});Sampled=([01])/\<close>:
  a fixed sequence of literals and counted classes, matched at the first position of the
  text where it fits. The groups are returned.
\<close>

definition strip_prefix :: "string \<Rightarrow> string \<Rightarrow> string option" where
  "strip_prefix p s = (if take (length p) s = p then Some (drop (length p) s) else None)"

definition take_hex :: "nat \<Rightarrow> string \<Rightarrow> (string \<times> string) option" where
  "take_hex k s =
     (if k \<le> length s \<and> list_all is_lower_hex (take k s) then Some (take k s, drop k s)
      else None)"

definition xray_match_at :: "string \<Rightarrow> (string \<times> string \<times> string \<times> char) option" where
  "xray_match_at s =
     (case strip_prefix ''Root=1-'' s of None \<Rightarrow> None | Some s1 \<Rightarrow>
      case take_hex 8 s1 of None \<Rightarrow> None | Some (timestamp, s2) \<Rightarrow>
      case strip_prefix ''-'' s2 of None \<Rightarrow> None | Some s3 \<Rightarrow>
      case take_hex 24 s3 of None \<Rightarrow> None | Some (traceIdSuffix, s4) \<Rightarrow>
      case strip_prefix '';Parent='' s4 of None \<Rightarrow> None | Some s5 \<Rightarrow>
      case take_hex 16 s5 of None \<Rightarrow> None | Some (parentId, s6) \<Rightarrow>
      case strip_prefix '';Sampled='' s6 of None \<Rightarrow> None | Some s7 \<Rightarrow>
      case s7 of
        [] \<Rightarrow> None
      | sampled # _ \<Rightarrow>
          if sampled = CHR ''0'' \<or> sampled = CHR ''1''
          then Some (timestamp, traceIdSuffix, parentId, sampled) else None)"

fun xray_match :: "string \<Rightarrow> (string \<times> string \<times> string \<times> char) option" where
  "xray_match [] = xray_match_at []"
| "xray_match (c # cs) =
     (case xray_match_at (c # cs) of Some m \<Rightarrow> Some m | None \<Rightarrow> xray_match cs)"


text \<open>One of the two guarded reads of a span context: both identifiers must be non-empty.\<close>

definition traceparent_of_span_context :: "span_context option \<Rightarrow> string option" where
  "traceparent_of_span_context sc =
     (case sc of
        None \<Rightarrow> None
      | Some c \<Rightarrow>
          if sc_traceId c \<noteq> [] \<and> sc_spanId c \<noteq> []
          then Some (render_traceparent (sc_traceId c) (sc_spanId c) (flags_text (traceFlags c)))
          else None)"

definition getTraceparentFromActiveSpan :: "ambient \<Rightarrow> string option" where
  "getTraceparentFromActiveSpan env =
     (case traceparent_of_span_context (activeSpan env) of
        Some tp \<Rightarrow> Some tp
      | None \<Rightarrow>
          (case (case xrayTraceId env of
                   None \<Rightarrow> None
                 | Some x \<Rightarrow> if x \<noteq> [] then xray_match x else None) of
             Some (timestamp, traceIdSuffix, parentId, sampled) \<Rightarrow>
               Some (render_traceparent (timestamp @ traceIdSuffix) parentId
                       (if sampled = CHR ''1'' then ''01'' else ''00''))
           | None \<Rightarrow> traceparent_of_span_context (activeSpanContext env)))"

text \<open>
  The event the handler is invoked with. A field the payload does not carry is \<open>None\<close>.
  The business fields are taken with the types the handler's callers document. The
  \<open>traceparent\<close> field is whatever value the invocation payload holds there.
\<close>

record publisher_event =
  transactionType :: "string option"
  orderId :: "string option"
  amount :: "real option"
  customerId :: "string option"
  reason :: "string option"
  ev_traceparent :: "json option"


text \<open>
  The Context Source of the handler:
  \<open>incomingTraceparent || otelTraceparent || generateW3CTraceparent()\<close>, with the label
  the handler reports for it. The first operand is the event's value, of any type; the
  other two are texts. The generator is called, and draws, only when both earlier sources
  are falsy.
\<close>

definition context_source ::
  "ambient \<Rightarrow> (nat \<Rightarrow> real) \<Rightarrow> nat \<Rightarrow> publisher_event \<Rightarrow> (json \<times> string) \<times> nat" where
  "context_source env rnd n event =
     (let incomingTraceparent = ev_traceparent event;
          otelTraceparent = getTraceparentFromActiveSpan env;
          generated = (case generateW3CTraceparent rnd n of
                         (tp, n') \<Rightarrow> ((JString tp, ''generated''), n'));
          ambient_or_generated =
            (case otelTraceparent of
               None \<Rightarrow> generated
             | Some tp \<Rightarrow> if tp \<noteq> [] then ((JString tp, ''otel''), n) else generated)
      in case incomingTraceparent of
           None \<Rightarrow> ambient_or_generated
         | Some v \<Rightarrow>
             if json_truthy (Some v) then ((v, ''incoming''), n) else ambient_or_generated)"

record handler_response =
  resp_orderId :: string
  resp_transactionType :: string
  resp_messageAttributes :: "string list"
  resp_traceparent :: string
  traceparentSource :: string

text \<open>
  The optional attributes \<open>amount\<close>, \<open>customerId\<close> and \<open>reason\<close>, each added when the
  event's field is truthy; \<open>num_text\<close> is the runtime's \<open>toString\<close> of a number. The
  result lists the names added, in order, beside the map.
\<close>

definition add_optional_attributes ::
  "(real \<Rightarrow> string) \<Rightarrow> publisher_event \<Rightarrow> (string \<rightharpoonup> sns_attribute) \<times> string list
   \<Rightarrow> (string \<rightharpoonup> sns_attribute) \<times> string list" where
  "add_optional_attributes num_text event acc =
     (let acc1 = (case amount event of
                    None \<Rightarrow> acc
                  | Some a \<Rightarrow>
                      if a \<noteq> 0
                      then ((fst acc)(''amount'' \<mapsto>
                              \<lparr>DataType = ''Number'', StringValue = num_text a\<rparr>),
                            snd acc @ [''amount''])
                      else acc);
          acc2 = (case customerId event of
                    None \<Rightarrow> acc1
                  | Some c \<Rightarrow>
                      if c \<noteq> []
                      then ((fst acc1)(''customerId'' \<mapsto>
                              \<lparr>DataType = ''String'', StringValue = c\<rparr>),
                            snd acc1 @ [''customerId''])
                      else acc1)
      in (case reason event of
            None \<Rightarrow> acc2
          | Some r \<Rightarrow>
              if r \<noteq> []
              then ((fst acc2)(''reason'' \<mapsto> \<lparr>DataType = ''String'', StringValue = r\<rparr>),
                    snd acc2 @ [''reason''])
              else acc2))"

text \<open>
  The handler: defaults for the business fields (a missing order id draws once from
  \<open>Math.random\<close>; \<open>base36\<close> is the runtime's \<open>toString(36).slice(2, 8)\<close> of the draw), the
  Context Source, the log line, the attribute map, the command sent and the response.
  The log line calls \<open>traceparent.split('-')\<close>: on a value that is not a string this is
  a TypeError (no parsed value has a method \<open>split\<close>), thrown before anything is sent.
  \<open>msg_text\<close> is the runtime's \<open>JSON.stringify\<close> of the message object (which holds the
  event's business fields and the clock's timestamp). The response's constant \<open>ok: true\<close>
  and the content of the log line are left out.
\<close>

definition handler ::
  "ambient \<Rightarrow> (nat \<Rightarrow> real) \<Rightarrow> (real \<Rightarrow> string) \<Rightarrow> (real \<Rightarrow> string)
   \<Rightarrow> (publisher_event \<Rightarrow> string \<Rightarrow> string \<Rightarrow> string) \<Rightarrow> nat \<Rightarrow> publisher_event
   \<Rightarrow> (js_error + publish_command \<times> handler_response) \<times> nat" where
  "handler env rnd base36 num_text msg_text n event =
     (let transactionType' = (case transactionType event of None \<Rightarrow> ''PAYMENT'' | Some t \<Rightarrow> t);
          (orderId', n1) = (case orderId event of
                              None \<Rightarrow> (''ORD-'' @ base36 (rnd n), Suc n)
                            | Some oid \<Rightarrow> (oid, n));
          ((selected, source), n2) = context_source env rnd n1 event
      in case selected of
           JString traceparent' \<Rightarrow>
             (let (attrs, names) =
                    add_optional_attributes num_text event
                      ([''transactionType'' \<mapsto>
                          \<lparr>DataType = ''String'', StringValue = transactionType'\<rparr>,
                        ''orderId'' \<mapsto> \<lparr>DataType = ''String'', StringValue = orderId'\<rparr>],
                       [''transactionType'', ''orderId'']);
                  messageAttributes' =
                    attrs(''traceparent'' \<mapsto>
                            \<lparr>DataType = ''String'', StringValue = traceparent'\<rparr>,
                          ''w3c_traceparent_orig'' \<mapsto>
                            \<lparr>DataType = ''String'', StringValue = traceparent'\<rparr>)
              in (Inr (\<lparr>TopicArn = TOPIC_ARN env,
                         Message = msg_text event transactionType' orderId',
                         MessageAttributes = messageAttributes'\<rparr>,
                       \<lparr>resp_orderId = orderId', resp_transactionType = transactionType',
                        resp_messageAttributes =
                          names @ [''traceparent'', ''w3c_traceparent_orig''],
                        resp_traceparent = traceparent', traceparentSource = source\<rparr>), n2))
         | _ \<Rightarrow> (Inl (TypeError ''traceparent.split is not a function''), n2))"

section \<open>Codec round trip\<close>

text \<open>
  The library has no codec of its own; the parsing it does is in
  \<open>extractIncomingTraceContext\<close> and the serialising in \<open>getTraceContext\<close>. Parsing a
  text is recovering the context of a record that carries it in the primary slot.
\<close>

definition parse_text :: "string \<Rightarrow> trace_context option" where
  "parse_text tp =
     extractIncomingTraceContext (sqs_record [''traceparent'' \<mapsto> string_attr tp])"

text \<open>
  Serialising a parse result: \<open>getTraceContext\<close> on a span context that has the parsed
  trace id and span id and a given flags byte (the parse result keeps no flags of its
  own); the text is the \<open>traceparent\<close> field of what it returns.
\<close>

definition serialize_with :: "8 word \<Rightarrow> trace_context \<Rightarrow> string option" where
  "serialize_with fl tc =
     (case traceId tc of
        None \<Rightarrow> None
      | Some t \<Rightarrow>
          (case spanId tc of
             None \<Rightarrow> None
           | Some s \<Rightarrow>
               map_option traceparent
                 (getTraceContext (Some \<lparr>sc_traceId = t, sc_spanId = s, traceFlags = fl\<rparr>))))"

text \<open>Parse, serialise the result, parse again.\<close>

definition round_trip :: "8 word \<Rightarrow> string \<Rightarrow> trace_context option" where
  "round_trip fl tp =
     (case parse_text tp of
        None \<Rightarrow> None
      | Some tc \<Rightarrow>
          (case serialize_with fl tc of None \<Rightarrow> None | Some tp' \<Rightarrow> parse_text tp'))"

section \<open>Sample inputs\<close>

text \<open>A source of draws that runs through the sixteen digits in turn.\<close>

definition sample_rnd :: "nat \<Rightarrow> real" where
  "sample_rnd i = real (i mod 16) / 16"

text \<open>An API Gateway event that carries the given headers and nothing else.\<close>

definition api_event :: "(string \<rightharpoonup> string) \<Rightarrow> inbound_record" where
  "api_event hs =
     \<lparr>messageId = [], receiptHandle = [], body = [],
      messageAttributes = None, headers = Some hs, eventSourceARN = None\<rparr>"

text \<open>A source of draws that returns 0 forty-eight times and 1/2 from then on.\<close>

definition two_block_rnd :: "nat \<Rightarrow> real" where
  "two_block_rnd i = (if i < 48 then 0 else 1 / 2)"

text \<open>
  Options for \<open>publish\<close>: one with the caller's own attributes, among them an entry named
  \<open>traceparent\<close>; one whose \<open>publishOptions\<close> carries an attribute map of its own.
\<close>

definition caller_options :: publish_options where
  "caller_options =
     \<lparr>opt_messageAttributes =
        Some [''orderId'' \<mapsto> \<lparr>DataType = ''String'', StringValue = ''ORD-1''\<rparr>,
              ''traceparent'' \<mapsto> \<lparr>DataType = ''String'', StringValue = ''mine''\<rparr>],
      publishOptions = None\<rparr>"

definition overriding_options :: publish_options where
  "overriding_options =
     \<lparr>opt_messageAttributes =
        Some [''orderId'' \<mapsto> \<lparr>DataType = ''String'', StringValue = ''ORD-1''\<rparr>],
      publishOptions =
        Some \<lparr>po_TopicArn = None, po_Message = None,
              po_MessageAttributes =
                Some [''orderId'' \<mapsto> \<lparr>DataType = ''String'', StringValue = ''ORD-1''\<rparr>]\<rparr>\<rparr>"

text \<open>
  Surroundings of the publisher handler with no span and no X-Ray variable, an event
  without a \<open>traceparent\<close> field, and a span context.
\<close>

definition no_ambient :: ambient where
  "no_ambient = \<lparr>activeSpan = None, xrayTraceId = None, activeSpanContext = None,
                  TOPIC_ARN = Some ''arn:aws:sns:us-east-1:000000000000:orders''\<rparr>"





text \<open>
  The two bodies of the unwrapping example: the JSON text of the object \<open>{x: 1}\<close>, and
  the notification envelope, an object with \<open>Type\<close> the string \<open>Notification\<close> and
  \<open>Message\<close> the string that is the first text. The double quote and the backslash of
  these texts are written by their character codes. A third envelope has an inner message
  that is not JSON, and the sample \<open>JSON.parse\<close> knows these three texts and rejects every
  other.
\<close>

definition dq :: char where
  "dq = CHR 0x22"

definition bs :: char where
  "bs = CHR 0x5C"

definition direct_body :: string where
  "direct_body = ''{'' @ [dq] @ ''x'' @ [dq] @ '':1}''"

definition envelope_body :: string where
  "envelope_body =
     ''{'' @ [dq] @ ''Type'' @ [dq] @ '':'' @ [dq] @ ''Notification'' @ [dq] @ '',''
     @ [dq] @ ''Message'' @ [dq] @ '':'' @ [dq]
     @ ''{'' @ [bs, dq] @ ''x'' @ [bs, dq] @ '':1}'' @ [dq] @ ''}''"

definition broken_envelope_body :: string where
  "broken_envelope_body =
     ''{'' @ [dq] @ ''Type'' @ [dq] @ '':'' @ [dq] @ ''Notification'' @ [dq] @ '',''
     @ [dq] @ ''Message'' @ [dq] @ '':'' @ [dq] @ ''junk'' @ [dq] @ ''}''"

definition sample_JSON_parse :: "string \<Rightarrow> string + json" where
  "sample_JSON_parse txt =
     (if txt = envelope_body then
        Inr (JObject [(''Type'', JString ''Notification''), (''Message'', JString direct_body)])
      else if txt = broken_envelope_body then
        Inr (JObject [(''Type'', JString ''Notification''), (''Message'', JString ''junk'')])
      else if txt = direct_body then Inr (JObject [(''x'', JNumber 1)])
      else Inl ''Unexpected token'')"

definition sample_ToString :: "json \<Rightarrow> string" where
  "sample_ToString v = ''[object Object]''"

text \<open>
  A business callback after the consumer example: it rejects a message that is not an
  object with property \<open>x\<close>, and counts the messages it accepted.
\<close>

definition sample_logic :: "(nat, json) business_logic" where
  "sample_logic messageData info s =
     (case get_prop messageData ''x'' of
        Inr (Some v) \<Rightarrow> (Inr v, Suc s)
      | _ \<Rightarrow> (Inl (Error ''x is required''), s))"

definition record_with_body :: "string \<Rightarrow> string \<Rightarrow> inbound_record" where
  "record_with_body mid txt =
     \<lparr>messageId = mid, receiptHandle = ''rh'', body = txt,
      messageAttributes = Some Map.empty, headers = None, eventSourceARN = None\<rparr>"

text \<open>The context object AWS Lambda passes to a handler: it has no member \<open>active\<close>.\<close>

definition aws_lambda_context :: lambda_context where
  "aws_lambda_context =
     \<lparr>awsRequestId = ''req-1'', functionName = ''order-processor'',
      functionVersion = ''1'', active = None\<rparr>"

text \<open>
  A batch of three records whose middle record is crafted to make the business callback
  fail (its payload has no property \<open>x\<close>), a \<open>JSON.parse\<close> that knows the two bodies in
  it, and a context object that, unlike the Lambda context, has a member \<open>active\<close>.
\<close>

definition crafted_body :: string where
  "crafted_body = ''{'' @ [dq] @ ''y'' @ [dq] @ '':1}''"

definition crafted_JSON_parse :: "string \<Rightarrow> string + json" where
  "crafted_JSON_parse txt =
     (if txt = direct_body then Inr (JObject [(''x'', JNumber 1)])
      else if txt = crafted_body then Inr (JObject [(''y'', JNumber 1)])
      else Inl ''Unexpected token'')"

definition lambda_context_with_span :: lambda_context where
  "lambda_context_with_span = aws_lambda_context\<lparr>active := Some None\<rparr>"

definition three_records :: "inbound_record list" where
  "three_records =
     [record_with_body ''m-0'' direct_body, record_with_body ''m-1'' crafted_body,
      record_with_body ''m-2'' direct_body]"

section \<open>Auxiliary facts\<close>

lemma split_on_nonempty: "split_on c s \<noteq> []"
  by (induction s) (auto split: list.splits)

lemma split_on_no_sep: "c \<notin> set s \<Longrightarrow> split_on c s = [s]"
  by (induction s) auto

lemma split_on_append: "c \<notin> set p \<Longrightarrow> split_on c (p @ c # rest) = p # split_on c rest"
  by (induction p) auto

lemma split_on_four:
  assumes "c \<notin> set a" "c \<notin> set b" "c \<notin> set d" "c \<notin> set e"
  shows "split_on c (a @ c # b @ c # d @ c # e) = [a, b, d, e]"
  using assms by (simp add: split_on_append split_on_no_sep)

lemma split_on_parts_no_sep: "p \<in> set (split_on c s) \<Longrightarrow> c \<notin> set p"
proof (induction s arbitrary: p)
  case Nil
  then show ?case by simp
next
  case (Cons x xs)
  show ?case
  proof (cases "x = c")
    case True
    with Cons show ?thesis by auto
  next
    case False
    obtain q qs where q: "split_on c xs = q # qs"
      using split_on_nonempty [of c xs] by (cases "split_on c xs") auto
    with Cons False show ?thesis by auto
  qed
qed

lemma split_on_join: "concat (map (\<lambda>p. p @ [c]) (split_on c s)) = s @ [c]"
proof (induction s)
  case Nil
  show ?case by simp
next
  case (Cons x xs)
  obtain q qs where q: "split_on c xs = q # qs"
    using split_on_nonempty [of c xs] by (cases "split_on c xs") auto
  with Cons show ?case by auto
qed

lemma split_on_four_join:
  assumes "split_on c s = [a, b, d, e]"
  shows "s = a @ c # b @ c # d @ c # e"
proof -
  have "s @ [c] = (a @ c # b @ c # d @ c # e) @ [c]"
    using split_on_join [of c s] assms by simp
  then show ?thesis by (simp only: append_same_eq)
qed

lemma not_hex_dash: "is_lower_hex x \<Longrightarrow> x \<noteq> CHR ''-''"
  by (auto simp: is_lower_hex_def)

lemma hex_digit_lower_hex: "n < 16 \<Longrightarrow> is_lower_hex (hex_digit n)"
  unfolding is_lower_hex_def hex_digit_def by (rule nth_mem) simp

lemma random_hex_digit_unit:
  assumes "0 \<le> r" "r < 1"
  shows "\<exists>d<16. random_hex_digit r = [hex_digit d]"
proof -
  have lo: "0 \<le> \<lfloor>r * 16\<rfloor>" using assms by simp
  have "r * 16 < 16" using assms by simp
  then have hi: "\<lfloor>r * 16\<rfloor> < 16" by (simp add: floor_less_iff)
  from lo hi have n16: "nat \<lfloor>r * 16\<rfloor> < 16" by linarith
  from lo have nneg: "\<not> \<lfloor>r * 16\<rfloor> < 0" by linarith
  have "int_toString16 \<lfloor>r * 16\<rfloor> = toString16 (nat \<lfloor>r * 16\<rfloor>)"
    unfolding int_toString16_def using nneg by (simp only: if_False)
  also have "\<dots> = [hex_digit (nat \<lfloor>r * 16\<rfloor>)]"
    using n16 by (subst toString16.simps) (simp only: if_True)
  finally have "random_hex_digit r = [hex_digit (nat \<lfloor>r * 16\<rfloor>)]"
    by (simp only: random_hex_digit_def)
  with n16 show ?thesis by blast
qed

lemma random_hex_length:
  assumes "in_unit_interval rnd"
  shows "length (random_hex rnd n k) = k"
proof -
  have one: "length (random_hex_digit (rnd i)) = 1" for i
    using random_hex_digit_unit [of "rnd i"] assms by (auto simp: in_unit_interval_def)
  have "length (concat (map (\<lambda>i. random_hex_digit (rnd (n + i))) xs)) = length xs" for xs
    by (induction xs) (simp_all add: one)
  from this [of "[0..<k]"] show ?thesis by (simp add: random_hex_def)
qed

lemma random_hex_lower_hex:
  assumes "in_unit_interval rnd"
  shows "list_all is_lower_hex (random_hex rnd n k)"
proof -
  have one: "list_all is_lower_hex (random_hex_digit (rnd i))" for i
    using random_hex_digit_unit [of "rnd i"] assms
    by (auto simp: in_unit_interval_def hex_digit_lower_hex)
  have "list_all is_lower_hex (concat (map (\<lambda>i. random_hex_digit (rnd (n + i))) xs))" for xs
    by (induction xs) (simp_all add: one)
  from this [of "[0..<k]"] show ?thesis by (simp add: random_hex_def)
qed

lemma lower_hex_no_dash: "list_all is_lower_hex s \<Longrightarrow> CHR ''-'' \<notin> set s"
  by (induction s) (auto dest: not_hex_dash)

lemma split_on_rendered:
  assumes "CHR ''-'' \<notin> set tid" "CHR ''-'' \<notin> set sid" "CHR ''-'' \<notin> set fl"
  shows "split_on CHR ''-'' (''00-'' @ tid @ ''-'' @ sid @ ''-'' @ fl) = [''00'', tid, sid, fl]"
  using split_on_four [of "CHR ''-''" "''00''" tid sid fl] assms by simp

lemma extract_primary_slot:
  assumes "tp \<noteq> []"
  shows "extractIncomingTraceContext (sqs_record [''traceparent'' \<mapsto> string_attr tp])
         = Some (context_of_text tp)"
  using assms
  by (simp add: extractIncomingTraceContext_def sqs_record_def string_attr_def
      attr_string_def js_or_def truthy_def)

lemma well_formed_parts:
  assumes "well_formed tp"
  obtains v tid sid f where "split_on CHR ''-'' tp = [v, tid, sid, f]"
    "tp = v @ CHR ''-'' # tid @ CHR ''-'' # sid @ CHR ''-'' # f"
    "CHR ''-'' \<notin> set tid" "CHR ''-'' \<notin> set sid"
proof -
  from assms obtain v tid sid f where sp: "split_on CHR ''-'' tp = [v, tid, sid, f]"
    by (auto simp: well_formed_def split: list.splits)
  have "tp = v @ CHR ''-'' # tid @ CHR ''-'' # sid @ CHR ''-'' # f"
    by (rule split_on_four_join [OF sp])
  moreover have "CHR ''-'' \<notin> set tid" "CHR ''-'' \<notin> set sid"
    using split_on_parts_no_sep [of _ "CHR ''-''" tp] sp by simp_all
  ultimately show ?thesis using sp that by blast
qed

lemma flags_text_no_dash: "CHR ''-'' \<notin> set (flags_text fl)"
  by (simp add: flags_text_def)

lemma parse_text_well_formed:
  assumes "split_on CHR ''-'' tp = [v, tid, sid, f]"
  shows "parse_text tp = Some \<lparr>traceId = Some tid, spanId = Some sid, traceparent = tp\<rparr>"
proof -
  have "tp \<noteq> []" using assms by auto
  then show ?thesis
    by (simp add: parse_text_def extract_primary_slot context_of_text_def assms nth_opt_def)
qed

lemma round_trip_well_formed:
  assumes "split_on CHR ''-'' tp = [v, tid, sid, f]"
    and "CHR ''-'' \<notin> set tid" "CHR ''-'' \<notin> set sid"
  shows "round_trip fl tp
         = Some \<lparr>traceId = Some tid, spanId = Some sid,
                  traceparent = ''00-'' @ tid @ ''-'' @ sid @ ''-'' @ flags_text fl\<rparr>"
proof -
  let ?t = "''00-'' @ tid @ ''-'' @ sid @ ''-'' @ flags_text fl"
  have ser: "serialize_with fl \<lparr>traceId = Some tid, spanId = Some sid, traceparent = tp\<rparr>
             = Some ?t"
    by (simp add: serialize_with_def getTraceContext_def render_traceparent_def)
  have sp: "split_on CHR ''-'' ?t = [''00'', tid, sid, flags_text fl]"
    by (rule split_on_rendered) (simp_all add: assms flags_text_no_dash)
  show ?thesis
    unfolding round_trip_def parse_text_well_formed [OF assms(1)]
    by (simp only: option.case ser parse_text_well_formed [OF sp])
qed

lemma traceparent_or_fallback_None:
  "traceparent_or_fallback None rnd n = generateFallbackTrace rnd n"
  by (simp add: traceparent_or_fallback_def)

lemma generateFallbackTrace_count: "snd (generateFallbackTrace rnd n) = n + 48"
  by (simp add: generateFallbackTrace_def Let_def)

lemma publish_attributes:
  "MessageAttributes (fst (publish JSON_stringify rnd n topicArn msg options)) =
     (case (case publishOptions options of None \<Rightarrow> None | Some po \<Rightarrow> po_MessageAttributes po) of
        Some attrs \<Rightarrow> attrs
      | None \<Rightarrow>
          (case opt_messageAttributes options of None \<Rightarrow> Map.empty | Some m \<Rightarrow> m)
            (''traceparent'' \<mapsto>
               \<lparr>DataType = ''String'', StringValue = fst (generateFallbackTrace rnd n)\<rparr>,
             ''w3c_traceparent_orig'' \<mapsto>
               \<lparr>DataType = ''String'', StringValue = fst (generateFallbackTrace rnd (n + 48))\<rparr>))"
proof -
  obtain p where p: "generateFallbackTrace rnd n = (p, n + 48)"
    using generateFallbackTrace_count [of rnd n] by (cases "generateFallbackTrace rnd n") simp
  obtain b where b: "generateFallbackTrace rnd (n + 48) = (b, n + 48 + 48)"
    using generateFallbackTrace_count [of rnd "n + 48"]
    by (cases "generateFallbackTrace rnd (n + 48)") simp
  show ?thesis
    by (simp add: publish_def publish_with_def getTraceContext_def traceparent_or_fallback_None
        p b Let_def split: option.splits)
qed

lemma xray_example:
  "getTraceparentFromActiveSpan
     (no_ambient\<lparr>xrayTraceId :=
        Some ''Root=1-5e1b4151-5ac6c58f40c8b5e065b2dcf0;Parent=53995c3f42cd8ad8;Sampled=1''\<rparr>)
   = Some ''00-5e1b41515ac6c58f40c8b5e065b2dcf0-53995c3f42cd8ad8-01''"
  by (simp add: getTraceparentFromActiveSpan_def no_ambient_def traceparent_of_span_context_def
      xray_match_at_def strip_prefix_def take_hex_def is_lower_hex_def render_traceparent_def)





lemma bodies_distinct:
  "envelope_body \<noteq> direct_body" "broken_envelope_body \<noteq> direct_body"
  "envelope_body \<noteq> broken_envelope_body" "''not json'' \<noteq> envelope_body"
  "''not json'' \<noteq> broken_envelope_body" "''not json'' \<noteq> direct_body"
  by (simp_all add: envelope_body_def direct_body_def broken_envelope_body_def dq_def bs_def)

lemma direct_body_nonempty: "direct_body \<noteq> []"
  by (simp add: direct_body_def)

lemma parseMessage_syntax_error:
  assumes "JSON_parse (body record) = Inl m"
  shows "parseMessage JSON_parse ToString record
         = Inl (Error (''Failed to parse message: '' @ m))"
  using assms by (simp add: parseMessage_def parseMessage_try_def)

lemma parseMessage_envelope:
  assumes "JSON_parse (body record) = Inr (JObject props)"
    "map_of props ''Type'' = Some (JString ''Notification'')"
    "map_of props ''Message'' = Some (JString inner)" "inner \<noteq> []"
  shows "parseMessage JSON_parse ToString record
         = (case JSON_parse inner of
              Inl m \<Rightarrow> Inl (Error (''Failed to parse message: '' @ m))
            | Inr v \<Rightarrow> Inr v)"
  using assms
  by (simp add: parseMessage_def parseMessage_try_def get_prop_def json_truthy_def
      parse_value_def split: sum.splits)

lemma parseMessage_direct:
  assumes "JSON_parse (body record) = Inr (JObject props)"
    "map_of props ''Type'' \<noteq> Some (JString ''Notification'')"
  shows "parseMessage JSON_parse ToString record = Inr (JObject props)"
  using assms by (simp add: parseMessage_def parseMessage_try_def get_prop_def)

lemma process_records_failure_step:
  assumes "parseMessage JSON_parse ToString record = Inl e"
  shows "process_records JSON_parse ToString businessLogic (record # rest) (results, failures, s)
         = process_records JSON_parse ToString businessLogic rest
             (results @ [\<lparr>entry_messageId = messageId record, status = error (message e)\<rparr>],
              failures @ [\<lparr>itemIdentifier = messageId record\<rparr>], s)"
  using assms by (simp add: try_record_def)

lemma sample_parse_envelope: "sample_JSON_parse envelope_body
      = Inr (JObject [(''Type'', JString ''Notification''), (''Message'', JString direct_body)])"
  by (simp add: sample_JSON_parse_def)

lemma sample_parse_direct: "sample_JSON_parse direct_body = Inr (JObject [(''x'', JNumber 1)])"
  using bodies_distinct by (simp add: sample_JSON_parse_def)

lemma sample_parse_broken: "sample_JSON_parse broken_envelope_body
      = Inr (JObject [(''Type'', JString ''Notification''), (''Message'', JString ''junk'')])"
  using bodies_distinct by (simp add: sample_JSON_parse_def)


lemma sample_parse_not_json: "sample_JSON_parse ''not json'' = Inl ''Unexpected token''"
  using bodies_distinct by (simp add: sample_JSON_parse_def)

lemma junk_distinct:
  "''junk'' \<noteq> envelope_body" "''junk'' \<noteq> broken_envelope_body" "''junk'' \<noteq> direct_body"
  by (simp_all add: envelope_body_def direct_body_def broken_envelope_body_def)

lemma sample_parse_junk: "sample_JSON_parse ''junk'' = Inl ''Unexpected token''"
  using junk_distinct by (simp add: sample_JSON_parse_def)















lemma handler_carriers:
  assumes "fst (handler env rnd base36 num_text msg_text n event) = Inr (cmd, resp)"
  shows "MessageAttributes cmd ''traceparent''
           = Some \<lparr>DataType = ''String'', StringValue = resp_traceparent resp\<rparr>
         \<and> MessageAttributes cmd ''w3c_traceparent_orig''
           = Some \<lparr>DataType = ''String'', StringValue = resp_traceparent resp\<rparr>"
  using assms
  by (auto simp: handler_def Let_def split: option.splits prod.splits json.splits)

lemma extract_by_carriers:
  "extractIncomingTraceContext r =
     (case js_or (primary_carrier r) (backup_carrier r) of
        Some tp \<Rightarrow> if tp \<noteq> [] then Some (context_of_text tp)
                   else (case header_carrier r of
                           None \<Rightarrow> None
                         | Some h \<Rightarrow> if h \<noteq> [] then Some (context_of_text h) else None)
      | None \<Rightarrow> (case header_carrier r of
                   None \<Rightarrow> None
                 | Some h \<Rightarrow> if h \<noteq> [] then Some (context_of_text h) else None))"
  by (simp add: extractIncomingTraceContext_def primary_carrier_def backup_carrier_def
      header_carrier_def js_or_def truthy_def split: option.splits)

section \<open>Facts about the batch loop\<close>

text \<open>
  What the loop of \<open>processBatch\<close> does once it runs: every record gets exactly one entry
  in \<open>results\<close>, in delivery order, and \<open>failures\<close> grows by the identities of the entries
  with status error, in the same order. When the context object has a member \<open>active\<close>,
  so that \<open>init\<close> returns, \<open>processBatch\<close> returns these; and a record on which the
  \<open>try\<close> block fails in every state, beside records on which it succeeds in every state,
  is then the only failure reported.
\<close>

lemma process_records_append:
  "process_records P T bl (xs @ ys) acc = process_records P T bl ys (process_records P T bl xs acc)"
proof (induction xs arbitrary: acc)
  case Nil
  show ?case by simp
next
  case (Cons x xs)
  obtain results failures s where acc: "acc = (results, failures, s)" by (cases acc)
  show ?case
    unfolding acc by (simp add: Cons.IH split: prod.splits sum.splits)
qed

lemma process_records_shape:
  "\<exists>new. fst (process_records P T bl rs (results, failures, s)) = results @ new
     \<and> fst (snd (process_records P T bl rs (results, failures, s)))
         = failures @ map (\<lambda>e. \<lparr>itemIdentifier = entry_messageId e\<rparr>)
                        (filter (\<lambda>e. failed (status e)) new)
     \<and> map entry_messageId new = map messageId rs"
proof (induction rs arbitrary: results failures s)
  case Nil
  show ?case by simp
next
  case (Cons r rs)
  obtain outcome s' where tr: "try_record P T bl r s = (outcome, s')"
    by (cases "try_record P T bl r s")
  show ?case
  proof (cases outcome)
    case (Inr result)
    let ?e = "\<lparr>entry_messageId = messageId r, status = success result\<rparr>"
    from Cons.IH [of "results @ [?e]" failures s'] obtain new where
      n: "fst (process_records P T bl rs (results @ [?e], failures, s')) = (results @ [?e]) @ new"
        "fst (snd (process_records P T bl rs (results @ [?e], failures, s')))
         = failures @ map (\<lambda>e. \<lparr>itemIdentifier = entry_messageId e\<rparr>)
                        (filter (\<lambda>e. failed (status e)) new)"
        "map entry_messageId new = map messageId rs"
      by blast
    have "fst (process_records P T bl (r # rs) (results, failures, s)) = results @ (?e # new)"
      "fst (snd (process_records P T bl (r # rs) (results, failures, s)))
         = failures @ map (\<lambda>e. \<lparr>itemIdentifier = entry_messageId e\<rparr>)
                        (filter (\<lambda>e. failed (status e)) (?e # new))"
      "map entry_messageId (?e # new) = map messageId (r # rs)"
      using n by (simp_all add: tr Inr)
    then show ?thesis by blast
  next
    case (Inl e)
    let ?e = "\<lparr>entry_messageId = messageId r, status = error (message e)\<rparr>"
    let ?f = "\<lparr>itemIdentifier = messageId r\<rparr>"
    from Cons.IH [of "results @ [?e]" "failures @ [?f]" s'] obtain new where
      n: "fst (process_records P T bl rs (results @ [?e], failures @ [?f], s'))
          = (results @ [?e]) @ new"
        "fst (snd (process_records P T bl rs (results @ [?e], failures @ [?f], s')))
         = (failures @ [?f]) @ map (\<lambda>e. \<lparr>itemIdentifier = entry_messageId e\<rparr>)
                        (filter (\<lambda>e. failed (status e)) new)"
        "map entry_messageId new = map messageId rs"
      by blast
    have "fst (process_records P T bl (r # rs) (results, failures, s)) = results @ (?e # new)"
      "fst (snd (process_records P T bl (r # rs) (results, failures, s)))
         = failures @ map (\<lambda>e. \<lparr>itemIdentifier = entry_messageId e\<rparr>)
                        (filter (\<lambda>e. failed (status e)) (?e # new))"
      "map entry_messageId (?e # new) = map messageId (r # rs)"
      using n by (simp_all add: tr Inl)
    then show ?thesis by blast
  qed
qed

lemma processBatch_statuses:
  assumes "active lambdaContext = Some sp"
  shows "\<exists>results failures s'.
           processBatch P T event lambdaContext bl s
             = (Inr (\<lparr>batchItemFailures = failures\<rparr>, results), s')
         \<and> map entry_messageId results
             = map messageId (case Records event of None \<Rightarrow> [] | Some rs \<Rightarrow> rs)
         \<and> failures = map (\<lambda>e. \<lparr>itemIdentifier = entry_messageId e\<rparr>)
                        (filter (\<lambda>e. failed (status e)) results)
         \<and> (failures = [] \<longleftrightarrow> \<not> list_ex (\<lambda>e. failed (status e)) results)"
proof -
  let ?rs = "case Records event of None \<Rightarrow> [] | Some rs \<Rightarrow> rs"
  obtain results failures s' where
    run: "process_records P T bl ?rs ([], [], s) = (results, failures, s')"
    by (cases "process_records P T bl ?rs ([], [], s)")
  from process_records_shape [of P T bl ?rs "[]" "[]" s] run
  have sh: "map entry_messageId results = map messageId ?rs"
    "failures = map (\<lambda>e. \<lparr>itemIdentifier = entry_messageId e\<rparr>)
                        (filter (\<lambda>e. failed (status e)) results)"
    by auto
  have "failures = [] \<longleftrightarrow> \<not> list_ex (\<lambda>e. failed (status e)) results"
    unfolding sh(2) by (simp add: filter_empty_conv list_ex_iff)
  moreover have "processBatch P T event lambdaContext bl s
             = (Inr (\<lparr>batchItemFailures = failures\<rparr>, results), s')"
    using assms run by (simp add: processBatch_def init_def)
  ultimately show ?thesis using sh by blast
qed


lemma filter_single:
  "k < length xs \<Longrightarrow> \<forall>i<length xs. P (xs ! i) \<longleftrightarrow> i = k \<Longrightarrow> filter P xs = [xs ! k]"
proof (induction xs arbitrary: k)
  case Nil
  then show ?case by simp
next
  case (Cons x xs)
  show ?case
  proof (cases k)
    case 0
    from Cons.prems(2) have "P x" using 0 by auto
    moreover have "\<not> P y" if "y \<in> set xs" for y
    proof -
      from that obtain i where "i < length xs" "xs ! i = y" by (auto simp: in_set_conv_nth)
      with Cons.prems(2) [rule_format, of "Suc i"] 0 show ?thesis by auto
    qed
    ultimately show ?thesis using 0 by (simp add: filter_empty_conv)
  next
    case (Suc k')
    from Cons.prems(2) [rule_format, of 0] Suc have "\<not> P x" by simp
    moreover have "\<forall>i<length xs. P (xs ! i) \<longleftrightarrow> i = k'"
      using Cons.prems(2) Suc by fastforce
    moreover have "k' < length xs" using Cons.prems(1) Suc by simp
    ultimately show ?thesis using Cons.IH [of k'] Suc by simp
  qed
qed

lemma process_records_statuses:
  assumes "\<forall>i<length rs. \<forall>s. isl (fst (try_record P T bl (rs ! i) s)) \<longleftrightarrow> fails i"
  shows "\<exists>new. fst (process_records P T bl rs (results, failures, s)) = results @ new
           \<and> length new = length rs
           \<and> (\<forall>i<length rs. failed (status (new ! i)) \<longleftrightarrow> fails i)"
  using assms
proof (induction rs arbitrary: results failures s fails)
  case Nil
  show ?case by simp
next
  case (Cons r rs)
  obtain outcome s' where tr: "try_record P T bl r s = (outcome, s')"
    by (cases "try_record P T bl r s")
  from Cons.prems [rule_format, of 0 s] tr have f0: "isl outcome \<longleftrightarrow> fails 0" by simp
  have rest: "\<forall>i<length rs. \<forall>s. isl (fst (try_record P T bl (rs ! i) s)) \<longleftrightarrow> fails (Suc i)"
    using Cons.prems by fastforce
  define e where "e = (case outcome of
      Inr result \<Rightarrow> \<lparr>entry_messageId = messageId r, status = success result\<rparr>
    | Inl err \<Rightarrow> \<lparr>entry_messageId = messageId r, status = error (message err)\<rparr>)"
  define fs where "fs = (case outcome of Inr result \<Rightarrow> failures
    | Inl err \<Rightarrow> failures @ [\<lparr>itemIdentifier = messageId r\<rparr>])"
  have step: "process_records P T bl (r # rs) (results, failures, s)
              = process_records P T bl rs (results @ [e], fs, s')"
    by (cases outcome) (simp_all add: tr e_def fs_def)
  have fe: "failed (status e) \<longleftrightarrow> fails 0"
    using f0 by (cases outcome) (simp_all add: e_def)
  from Cons.IH [OF rest, of "results @ [e]" fs s'] obtain new where
    n: "fst (process_records P T bl rs (results @ [e], fs, s')) = (results @ [e]) @ new"
      "length new = length rs" "\<forall>i<length rs. failed (status (new ! i)) \<longleftrightarrow> fails (Suc i)"
    by blast
  have "\<forall>i<length (r # rs). failed (status ((e # new) ! i)) \<longleftrightarrow> fails i"
  proof (intro allI impI)
    fix i assume "i < length (r # rs)"
    then show "failed (status ((e # new) ! i)) \<longleftrightarrow> fails i"
      using fe n(3) by (cases i) simp_all
  qed
  moreover have "fst (process_records P T bl (r # rs) (results, failures, s)) = results @ (e # new)"
    by (simp only: step n(1)) simp
  moreover have "length (e # new) = length (r # rs)" using n(2) by simp
  ultimately show ?case by blast
qed

lemma processBatch_isolates_failure:
  assumes "active lambdaContext = Some sp" "Records event = Some rs" "k < length rs"
    and "\<forall>i<length rs. \<forall>s. isl (fst (try_record P T bl (rs ! i) s)) \<longleftrightarrow> i = k"
  shows "\<exists>results s'.
           processBatch P T event lambdaContext bl s
             = (Inr (\<lparr>batchItemFailures = [\<lparr>itemIdentifier = messageId (rs ! k)\<rparr>]\<rparr>, results), s')
         \<and> length results = length rs
         \<and> (\<forall>i<length rs. failed (status (results ! i)) \<longleftrightarrow> i = k)"
proof -
  obtain results failures s' where
    run: "process_records P T bl rs ([], [], s) = (results, failures, s')"
    by (cases "process_records P T bl rs ([], [], s)")
  from process_records_statuses [OF assms(4), of "[]" "[]" s] run
  have st: "length results = length rs" "\<forall>i<length rs. failed (status (results ! i)) \<longleftrightarrow> i = k"
    by auto
  from process_records_shape [of P T bl rs "[]" "[]" s] run
  have sh: "map entry_messageId results = map messageId rs"
    "failures = map (\<lambda>e. \<lparr>itemIdentifier = entry_messageId e\<rparr>)
                        (filter (\<lambda>e. failed (status e)) results)"
    by auto
  have "filter (\<lambda>e. failed (status e)) results = [results ! k]"
    using filter_single [of k results "\<lambda>e. failed (status e)"] st assms(3) by simp
  moreover have "entry_messageId (results ! k) = messageId (rs ! k)"
    using sh(1) st(1) assms(3) by (metis nth_map)
  ultimately have "failures = [\<lparr>itemIdentifier = messageId (rs ! k)\<rparr>]"
    using sh(2) by simp
  moreover have "processBatch P T event lambdaContext bl s
             = (Inr (\<lparr>batchItemFailures = failures\<rparr>, results), s')"
    using assms(1,2) run by (simp add: processBatch_def init_def)
  ultimately show ?thesis using st by blast
qed


lemma crafted_parse:
  "crafted_JSON_parse direct_body = Inr (JObject [(''x'', JNumber 1)])"
  "crafted_JSON_parse crafted_body = Inr (JObject [(''y'', JNumber 1)])"
  by (simp_all add: crafted_JSON_parse_def)
    (simp add: crafted_body_def direct_body_def)

lemma crafted_try_record:
  "try_record crafted_JSON_parse sample_ToString sample_logic (record_with_body mid direct_body) s
   = (Inr (JNumber 1), Suc s)"
  "try_record crafted_JSON_parse sample_ToString sample_logic (record_with_body mid crafted_body) s
   = (Inl (Error ''x is required''), s)"
  by (simp_all add: try_record_def parseMessage_def parseMessage_try_def crafted_parse
      record_with_body_def get_prop_def sample_logic_def)

lemma three_records_run:
  "process_records crafted_JSON_parse sample_ToString sample_logic three_records ([], [], 0)
   = ([\<lparr>entry_messageId = ''m-0'', status = success (JNumber 1)\<rparr>,
       \<lparr>entry_messageId = ''m-1'', status = error ''x is required''\<rparr>,
       \<lparr>entry_messageId = ''m-2'', status = success (JNumber 1)\<rparr>],
      [\<lparr>itemIdentifier = ''m-1''\<rparr>], 2)"
proof -
  have ids: "messageId (record_with_body mid b) = mid" for mid b
    by (simp add: record_with_body_def)
  show ?thesis
    by (simp add: three_records_def crafted_try_record ids)
qed

section \<open>Context Recoverer\<close>

text \<open>
  C1. The claim: when both carrier slots are present with different values, the recoverer
  selects the backup slot \<open>w3c_traceparent_orig\<close>. The code evaluates
  \<open>traceparent?.stringValue || w3c_traceparent_orig?.stringValue\<close>, so the primary slot
  wins whenever it is a non-empty string. Evaluated here on a record whose primary slot was
  regenerated by the relay and whose backup slot still holds the publisher's identifier:
  the result is built from the primary slot.
\<close>

theorem extract_returns_primary_when_both_present:
  "extractIncomingTraceContext
     (sqs_record
        [''traceparent'' \<mapsto>
           string_attr ''00-aaaaaaaaaaaaaaaaaaaaaaaaaaaaaaaa-bbbbbbbbbbbbbbbb-01'',
         ''w3c_traceparent_orig'' \<mapsto>
           string_attr ''00-68dde6a91b7146f84c4bc23f54f17b0f-50d362e330737a0f-01''])
   = Some \<lparr>traceId = Some ''aaaaaaaaaaaaaaaaaaaaaaaaaaaaaaaa'',
            spanId = Some ''bbbbbbbbbbbbbbbb'',
            traceparent = ''00-aaaaaaaaaaaaaaaaaaaaaaaaaaaaaaaa-bbbbbbbbbbbbbbbb-01''\<rparr>"
  by (simp add: extractIncomingTraceContext_def sqs_record_def string_attr_def
      attr_string_def js_or_def truthy_def context_of_text_def nth_opt_def)

section \<open>Propagation Attacher\<close>

text \<open>
  C2. The claim: on every outbound publish the primary carrier \<open>traceparent\<close> and the
  backup carrier \<open>w3c_traceparent_orig\<close> hold the same text, also when a fallback
  identifier is generated. \<open>SNSPublisher.publish\<close> evaluates
  \<open>traceContext?.traceparent || this.generateFallbackTrace()\<close> once for each carrier, and
  its manager never has a current span, so each carrier gets a fallback identifier of its
  own, drawn separately. Evaluated here with a \<open>Math.random\<close> that returns 0 for the first
  48 draws and 1/2 afterwards (all within its range): the two carriers differ.
\<close>

theorem publish_carriers_differ:
  "in_unit_interval two_block_rnd
   \<and> MessageAttributes
     (fst (publish (\<lambda>m. m) two_block_rnd 0 ''arn:aws:sns:us-east-1:000000000000:orders''
             ''{}'' no_options)) ''traceparent''
   = Some \<lparr>DataType = ''String'',
            StringValue = ''00-00000000000000000000000000000000-0000000000000000-01''\<rparr>
   \<and> MessageAttributes
     (fst (publish (\<lambda>m. m) two_block_rnd 0 ''arn:aws:sns:us-east-1:000000000000:orders''
             ''{}'' no_options)) ''w3c_traceparent_orig''
   = Some \<lparr>DataType = ''String'',
            StringValue = ''00-88888888888888888888888888888888-8888888888888888-01''\<rparr>"
  by (simp add: in_unit_interval_def publish_def publish_with_def no_options_def
      getTraceContext_def traceparent_or_fallback_def generateFallbackTrace_def random_hex_def
      random_hex_digit_def int_toString16_def two_block_rnd_def hex_digit_def upt_rec)

text \<open>
  C3. The claim: a carrier slot or header that is present but not well-formed is treated
  as absent, and no malformed identifier is returned. The code has no well-formedness
  check anywhere: only an empty text counts as absent. Here a record whose primary slot
  holds \<open>not-a-traceparent\<close> yields a context with trace id \<open>a\<close> and span id
  \<open>traceparent\<close>, where the same record without the slot yields nothing.
\<close>

theorem malformed_slot_not_treated_as_absent:
  "\<not> well_formed ''not-a-traceparent''
   \<and> extractIncomingTraceContext
         (sqs_record [''traceparent'' \<mapsto> string_attr ''not-a-traceparent''])
       = Some \<lparr>traceId = Some ''a'', spanId = Some ''traceparent'',
                traceparent = ''not-a-traceparent''\<rparr>
   \<and> extractIncomingTraceContext (sqs_record Map.empty) = None"
  by (simp add: well_formed_def extractIncomingTraceContext_def sqs_record_def
      string_attr_def attr_string_def js_or_def truthy_def context_of_text_def nth_opt_def)

text \<open>
  C3 as amended. The recoverer is a total function of a record whose attribute and header
  values are strings: it returns for every such record. It applies no well-formedness
  check: when the carriers that are present and non-empty (the primary slot, the backup
  slot, the \<open>traceparent\<close> header) all hold the same text, it returns that text verbatim,
  well-formed or not, with the second and third dash-separated segments as trace id and
  span id (\<open>undefined\<close> where the text has fewer segments). A missing or empty carrier is
  treated as absent, and the recoverer returns nothing when all three are missing or
  empty. Which carrier is taken when they hold different texts is not part of this
  statement.
\<close>

theorem carrier_text_returned_verbatim:
  "((truthy (primary_carrier r) \<or> truthy (backup_carrier r) \<or> truthy (header_carrier r))
     \<and> (truthy (primary_carrier r) \<longrightarrow> primary_carrier r = Some tp)
     \<and> (truthy (backup_carrier r) \<longrightarrow> backup_carrier r = Some tp)
     \<and> (truthy (header_carrier r) \<longrightarrow> header_carrier r = Some tp)
      \<longrightarrow> extractIncomingTraceContext r
          = Some \<lparr>traceId = nth_opt (split_on CHR ''-'' tp) 1,
                   spanId = nth_opt (split_on CHR ''-'' tp) 2, traceparent = tp\<rparr>)
   \<and> (\<not> truthy (primary_carrier r) \<and> \<not> truthy (backup_carrier r)
        \<and> \<not> truthy (header_carrier r)
      \<longrightarrow> extractIncomingTraceContext r = None)"
proof -
  let ?ctx = "Some \<lparr>traceId = nth_opt (split_on CHR ''-'' tp) 1,
                     spanId = nth_opt (split_on CHR ''-'' tp) 2, traceparent = tp\<rparr>"
  have ctx: "Some (context_of_text tp) = ?ctx"
    by (simp add: context_of_text_def Let_def)
  have agree: "extractIncomingTraceContext r = ?ctx"
    if any: "truthy (primary_carrier r) \<or> truthy (backup_carrier r) \<or> truthy (header_carrier r)"
      and p: "truthy (primary_carrier r) \<longrightarrow> primary_carrier r = Some tp"
      and b: "truthy (backup_carrier r) \<longrightarrow> backup_carrier r = Some tp"
      and h: "truthy (header_carrier r) \<longrightarrow> header_carrier r = Some tp"
  proof (cases "truthy (js_or (primary_carrier r) (backup_carrier r))")
    case True
    then have "js_or (primary_carrier r) (backup_carrier r) = Some tp"
      using p b by (auto simp: js_or_def)
    moreover from this True have "tp \<noteq> []" by (simp add: truthy_def)
    ultimately show ?thesis by (simp add: extract_by_carriers ctx)
  next
    case False
    then have np: "\<not> truthy (primary_carrier r)" and nb: "\<not> truthy (backup_carrier r)"
      by (auto simp: js_or_def split: if_splits)
    with any h have hd: "header_carrier r = Some tp" "tp \<noteq> []"
      by (auto simp: truthy_def)
    from False have "(case js_or (primary_carrier r) (backup_carrier r) of
        Some tp \<Rightarrow> if tp \<noteq> [] then Some (context_of_text tp)
                   else (case header_carrier r of
                           None \<Rightarrow> None
                         | Some h \<Rightarrow> if h \<noteq> [] then Some (context_of_text h) else None)
      | None \<Rightarrow> (case header_carrier r of
                   None \<Rightarrow> None
                 | Some h \<Rightarrow> if h \<noteq> [] then Some (context_of_text h) else None))
      = (case header_carrier r of
                   None \<Rightarrow> None
                 | Some h \<Rightarrow> if h \<noteq> [] then Some (context_of_text h) else None)"
      by (auto simp: truthy_def split: option.splits)
    then show ?thesis by (simp add: extract_by_carriers hd ctx)
  qed
  have absent: "extractIncomingTraceContext r = None"
    if "\<not> truthy (primary_carrier r)" "\<not> truthy (backup_carrier r)"
       "\<not> truthy (header_carrier r)"
    using that by (auto simp: extract_by_carriers js_or_def truthy_def split: option.splits)
  from agree absent show ?thesis by blast
qed


theorem carrier_text_returned_verbatim_witness:
  "\<not> well_formed ''00-XYZ''
   \<and> extractIncomingTraceContext (sqs_record [''traceparent'' \<mapsto> string_attr ''00-XYZ''])
       = Some \<lparr>traceId = Some ''XYZ'', spanId = None, traceparent = ''00-XYZ''\<rparr>
   \<and> extractIncomingTraceContext
         (sqs_record [''w3c_traceparent_orig'' \<mapsto> string_attr ''00-XYZ''])
       = Some \<lparr>traceId = Some ''XYZ'', spanId = None, traceparent = ''00-XYZ''\<rparr>
   \<and> extractIncomingTraceContext
         (sqs_record [''traceparent'' \<mapsto> string_attr ''00-XYZ'',
                      ''w3c_traceparent_orig'' \<mapsto> string_attr ''00-XYZ''])
       = Some \<lparr>traceId = Some ''XYZ'', spanId = None, traceparent = ''00-XYZ''\<rparr>
   \<and> extractIncomingTraceContext (api_event [''traceparent'' \<mapsto> ''00-XYZ''])
       = Some \<lparr>traceId = Some ''XYZ'', spanId = None, traceparent = ''00-XYZ''\<rparr>
   \<and> extractIncomingTraceContext (api_event Map.empty) = None"
proof -
  let ?p = "sqs_record [''traceparent'' \<mapsto> string_attr ''00-XYZ'']"
  let ?b = "sqs_record [''w3c_traceparent_orig'' \<mapsto> string_attr ''00-XYZ'']"
  let ?pb = "sqs_record [''traceparent'' \<mapsto> string_attr ''00-XYZ'',
                         ''w3c_traceparent_orig'' \<mapsto> string_attr ''00-XYZ'']"
  let ?h = "api_event [''traceparent'' \<mapsto> ''00-XYZ'']"
  let ?ctx = "Some \<lparr>traceId = Some ''XYZ'', spanId = None, traceparent = ''00-XYZ''\<rparr>"
  note defs = primary_carrier_def backup_carrier_def header_carrier_def sqs_record_def
    api_event_def string_attr_def attr_string_def truthy_def
  have seg: "nth_opt (split_on CHR ''-'' ''00-XYZ'') 1 = Some ''XYZ''"
    "nth_opt (split_on CHR ''-'' ''00-XYZ'') 2 = None"
    by (simp_all add: nth_opt_def)
  have nwf: "\<not> well_formed ''00-XYZ''"
    by (simp add: well_formed_def)
  have hp: "(truthy (primary_carrier ?p) \<or> truthy (backup_carrier ?p) \<or> truthy (header_carrier ?p))
     \<and> (truthy (primary_carrier ?p) \<longrightarrow> primary_carrier ?p = Some ''00-XYZ'')
     \<and> (truthy (backup_carrier ?p) \<longrightarrow> backup_carrier ?p = Some ''00-XYZ'')
     \<and> (truthy (header_carrier ?p) \<longrightarrow> header_carrier ?p = Some ''00-XYZ'')"
    by (simp add: defs)
  have c1: "extractIncomingTraceContext ?p = ?ctx"
    using carrier_text_returned_verbatim
      [where r = ?p and tp = "''00-XYZ''", THEN conjunct1, THEN mp, OF hp]
    by (simp only: seg)
  have hb: "(truthy (primary_carrier ?b) \<or> truthy (backup_carrier ?b) \<or> truthy (header_carrier ?b))
     \<and> (truthy (primary_carrier ?b) \<longrightarrow> primary_carrier ?b = Some ''00-XYZ'')
     \<and> (truthy (backup_carrier ?b) \<longrightarrow> backup_carrier ?b = Some ''00-XYZ'')
     \<and> (truthy (header_carrier ?b) \<longrightarrow> header_carrier ?b = Some ''00-XYZ'')"
    by (simp add: defs)
  have c2: "extractIncomingTraceContext ?b = ?ctx"
    using carrier_text_returned_verbatim
      [where r = ?b and tp = "''00-XYZ''", THEN conjunct1, THEN mp, OF hb]
    by (simp only: seg)
  have hpb: "(truthy (primary_carrier ?pb) \<or> truthy (backup_carrier ?pb)
              \<or> truthy (header_carrier ?pb))
     \<and> (truthy (primary_carrier ?pb) \<longrightarrow> primary_carrier ?pb = Some ''00-XYZ'')
     \<and> (truthy (backup_carrier ?pb) \<longrightarrow> backup_carrier ?pb = Some ''00-XYZ'')
     \<and> (truthy (header_carrier ?pb) \<longrightarrow> header_carrier ?pb = Some ''00-XYZ'')"
    by (simp add: defs)
  have c3: "extractIncomingTraceContext ?pb = ?ctx"
    using carrier_text_returned_verbatim
      [where r = ?pb and tp = "''00-XYZ''", THEN conjunct1, THEN mp, OF hpb]
    by (simp only: seg)
  have hh: "(truthy (primary_carrier ?h) \<or> truthy (backup_carrier ?h) \<or> truthy (header_carrier ?h))
     \<and> (truthy (primary_carrier ?h) \<longrightarrow> primary_carrier ?h = Some ''00-XYZ'')
     \<and> (truthy (backup_carrier ?h) \<longrightarrow> backup_carrier ?h = Some ''00-XYZ'')
     \<and> (truthy (header_carrier ?h) \<longrightarrow> header_carrier ?h = Some ''00-XYZ'')"
    by (simp add: defs)
  have c4: "extractIncomingTraceContext ?h = ?ctx"
    using carrier_text_returned_verbatim
      [where r = ?h and tp = "''00-XYZ''", THEN conjunct1, THEN mp, OF hh]
    by (simp only: seg)
  have hn: "\<not> truthy (primary_carrier (api_event Map.empty))
        \<and> \<not> truthy (backup_carrier (api_event Map.empty))
        \<and> \<not> truthy (header_carrier (api_event Map.empty))"
    by (simp add: defs)
  have c5: "extractIncomingTraceContext (api_event Map.empty) = None"
    by (rule carrier_text_returned_verbatim
      [where r = "api_event Map.empty", THEN conjunct2, THEN mp, OF hn])
  show ?thesis by (intro conjI nwf c1 c2 c3 c4 c5)
qed

section \<open>Batch Result Aggregator\<close>

text \<open>
  C4. The claim: for a batch in which the business callback fails on exactly one record,
  \<open>processBatch\<close> returns an outcome whose \<open>batchItemFailures\<close> holds exactly that
  record's \<open>messageId\<close>. \<open>processBatch\<close> starts with
  \<open>new ObservabilityManager(...).init(event, context)\<close>, and \<open>init\<close> calls
  \<open>context.active()\<close> on its own parameter, the Lambda context, which has no such method.
  With the context object AWS Lambda passes, the call is rejected with a TypeError before
  the first record is read, and no outcome is returned. The same batch with a context
  object that does have \<open>active\<close> gives the outcome the claim describes.
\<close>

theorem processBatch_rejects_before_first_record:
  "processBatch crafted_JSON_parse sample_ToString \<lparr>Records = Some three_records\<rparr>
     aws_lambda_context sample_logic 0
   = (Inl (TypeError ''context.active is not a function''), 0)
   \<and> processBatch crafted_JSON_parse sample_ToString \<lparr>Records = Some three_records\<rparr>
     lambda_context_with_span sample_logic 0
   = (Inr (\<lparr>batchItemFailures = [\<lparr>itemIdentifier = ''m-1''\<rparr>]\<rparr>,
           [\<lparr>entry_messageId = ''m-0'', status = success (JNumber 1)\<rparr>,
            \<lparr>entry_messageId = ''m-1'', status = error ''x is required''\<rparr>,
            \<lparr>entry_messageId = ''m-2'', status = success (JNumber 1)\<rparr>]), 2)"
  by (simp add: processBatch_def init_def aws_lambda_context_def lambda_context_with_span_def
      three_records_run)

text \<open>
  C5. The claim: for every input batch \<open>processBatch\<close> produces one terminal status per
  record and returns the failed identities. With the context object AWS Lambda passes,
  \<open>init\<close> throws before the loop, for a batch of one well-formed record as for an event
  without records: no status is produced and nothing is returned.
\<close>

theorem processBatch_gives_no_status:
  "processBatch crafted_JSON_parse sample_ToString
     \<lparr>Records = Some [record_with_body ''m-0'' direct_body]\<rparr> aws_lambda_context sample_logic 0
   = (Inl (TypeError ''context.active is not a function''), 0)
   \<and> processBatch crafted_JSON_parse sample_ToString \<lparr>Records = None\<rparr>
       aws_lambda_context sample_logic 0
   = (Inl (TypeError ''context.active is not a function''), 0)"
  by (simp add: processBatch_def init_def aws_lambda_context_def)

section \<open>Envelope Unwrapper\<close>

text \<open>
  C6. For any \<open>JSON.parse\<close> that reads the notification envelope of the example
  (\<open>envelope_body\<close>: \<open>Type\<close> is \<open>Notification\<close>, \<open>Message\<close> is the text of \<open>{x: 1}\<close>) as the
  object with these two properties, and reads the direct body (\<open>direct_body\<close>) as the
  object \<open>{x: 1}\<close>, \<open>parseMessage\<close> yields \<open>{x: 1}\<close> for a record with the envelope as
  body, and the same \<open>{x: 1}\<close> for a record with the direct body. When the body does not
  parse, or the body is an envelope whose inner message does not parse, \<open>parseMessage\<close>
  fails with the error \<open>Failed to parse message: ...\<close>. The failure is that record's
  only: the batch loop records it under the record's identity, does not call the business
  logic for it, and goes on to the remaining records.
\<close>

theorem parseMessage_unwraps_envelope:
  "(JSON_parse envelope_body
      = Inr (JObject [(''Type'', JString ''Notification''), (''Message'', JString direct_body)])
    \<and> JSON_parse direct_body = Inr (JObject [(''x'', JNumber 1)])
      \<longrightarrow> parseMessage JSON_parse ToString (record\<lparr>body := envelope_body\<rparr>)
            = Inr (JObject [(''x'', JNumber 1)])
          \<and> parseMessage JSON_parse ToString (record\<lparr>body := direct_body\<rparr>)
            = Inr (JObject [(''x'', JNumber 1)]))
   \<and> (JSON_parse (body record) = Inl m
      \<longrightarrow> parseMessage JSON_parse ToString record
          = Inl (Error (''Failed to parse message: '' @ m)))
   \<and> (JSON_parse (body record) = Inr (JObject props)
        \<and> map_of props ''Type'' = Some (JString ''Notification'')
        \<and> map_of props ''Message'' = Some (JString inner) \<and> inner \<noteq> []
        \<and> JSON_parse inner = Inl m
      \<longrightarrow> parseMessage JSON_parse ToString record
          = Inl (Error (''Failed to parse message: '' @ m)))
   \<and> (parseMessage JSON_parse ToString record = Inl e
      \<longrightarrow> process_records JSON_parse ToString businessLogic (record # rest)
            (results, failures, s)
          = process_records JSON_parse ToString businessLogic rest
              (results @ [\<lparr>entry_messageId = messageId record, status = error (message e)\<rparr>],
               failures @ [\<lparr>itemIdentifier = messageId record\<rparr>], s))"
proof -
  have env: "parseMessage JSON_parse ToString (record\<lparr>body := envelope_body\<rparr>)
            = Inr (JObject [(''x'', JNumber 1)])"
    if "JSON_parse envelope_body
          = Inr (JObject [(''Type'', JString ''Notification''), (''Message'', JString direct_body)])"
       "JSON_parse direct_body = Inr (JObject [(''x'', JNumber 1)])"
    using parseMessage_envelope [of JSON_parse "record\<lparr>body := envelope_body\<rparr>"
        "[(''Type'', JString ''Notification''), (''Message'', JString direct_body)]"
        direct_body ToString] that direct_body_nonempty
    by simp
  have dir: "parseMessage JSON_parse ToString (record\<lparr>body := direct_body\<rparr>)
            = Inr (JObject [(''x'', JNumber 1)])"
    if "JSON_parse direct_body = Inr (JObject [(''x'', JNumber 1)])"
    using parseMessage_direct [of JSON_parse "record\<lparr>body := direct_body\<rparr>"
        "[(''x'', JNumber 1)]" ToString] that
    by simp
  have bad_inner: "parseMessage JSON_parse ToString record
          = Inl (Error (''Failed to parse message: '' @ m))"
    if "JSON_parse (body record) = Inr (JObject props)"
       "map_of props ''Type'' = Some (JString ''Notification'')"
       "map_of props ''Message'' = Some (JString inner)" "inner \<noteq> []"
       "JSON_parse inner = Inl m"
    using parseMessage_envelope [of JSON_parse "record" props inner ToString] that by simp
  from env dir bad_inner parseMessage_syntax_error [of JSON_parse "record" m ToString]
    process_records_failure_step
      [of JSON_parse ToString "record" e businessLogic rest results failures s]
  show ?thesis by blast
qed

theorem parseMessage_unwraps_envelope_witness:
  "parseMessage sample_JSON_parse sample_ToString (record_with_body ''m-1'' envelope_body)
     = Inr (JObject [(''x'', JNumber 1)])
   \<and> parseMessage sample_JSON_parse sample_ToString (record_with_body ''m-1'' direct_body)
     = Inr (JObject [(''x'', JNumber 1)])
   \<and> parseMessage sample_JSON_parse sample_ToString (record_with_body ''m-2'' ''not json'')
     = Inl (Error ''Failed to parse message: Unexpected token'')
   \<and> parseMessage sample_JSON_parse sample_ToString
         (record_with_body ''m-3'' broken_envelope_body)
     = Inl (Error ''Failed to parse message: Unexpected token'')
   \<and> process_records sample_JSON_parse sample_ToString sample_logic
         [record_with_body ''m-2'' ''not json'', record_with_body ''m-1'' envelope_body]
         ([], [], 0)
     = ([\<lparr>entry_messageId = ''m-2'',
           status = error ''Failed to parse message: Unexpected token''\<rparr>,
         \<lparr>entry_messageId = ''m-1'', status = success (JNumber 1)\<rparr>],
        [\<lparr>itemIdentifier = ''m-2''\<rparr>], 1)"
proof -
  let ?r = "record_with_body ''m-1'' direct_body"
  let ?env = "record_with_body ''m-1'' envelope_body"
  let ?bad = "record_with_body ''m-2'' ''not json''"
  let ?broken = "record_with_body ''m-3'' broken_envelope_body"
  let ?failure = "Error ''Failed to parse message: Unexpected token''"
  have up: "?r\<lparr>body := envelope_body\<rparr> = ?env" "?r\<lparr>body := direct_body\<rparr> = ?r"
    by (simp_all add: record_with_body_def)
  from parseMessage_unwraps_envelope [of sample_JSON_parse sample_ToString ?r]
    sample_parse_envelope sample_parse_direct
  have "parseMessage sample_JSON_parse sample_ToString (?r\<lparr>body := envelope_body\<rparr>)
            = Inr (JObject [(''x'', JNumber 1)])
          \<and> parseMessage sample_JSON_parse sample_ToString (?r\<lparr>body := direct_body\<rparr>)
            = Inr (JObject [(''x'', JNumber 1)])"
    by (rule conjunct1 [THEN mp, OF _ conjI])
  then have c12: "parseMessage sample_JSON_parse sample_ToString ?env
            = Inr (JObject [(''x'', JNumber 1)])
          \<and> parseMessage sample_JSON_parse sample_ToString ?r
            = Inr (JObject [(''x'', JNumber 1)])"
    by (simp only: up)
  have hbad: "sample_JSON_parse (body ?bad) = Inl ''Unexpected token''"
    by (simp add: record_with_body_def sample_parse_not_json)
  have c3: "parseMessage sample_JSON_parse sample_ToString ?bad = Inl ?failure"
    using parseMessage_unwraps_envelope
      [of sample_JSON_parse sample_ToString ?bad "''Unexpected token''",
        THEN conjunct2, THEN conjunct1, THEN mp, OF hbad]
    by simp
  have hbroken: "sample_JSON_parse (body ?broken)
        = Inr (JObject [(''Type'', JString ''Notification''), (''Message'', JString ''junk'')])
      \<and> map_of [(''Type'', JString ''Notification''), (''Message'', JString ''junk'')] ''Type''
        = Some (JString ''Notification'')
      \<and> map_of [(''Type'', JString ''Notification''), (''Message'', JString ''junk'')] ''Message''
        = Some (JString ''junk'')
      \<and> ''junk'' \<noteq> [] \<and> sample_JSON_parse ''junk'' = Inl ''Unexpected token''"
    by (simp add: record_with_body_def sample_parse_broken sample_parse_junk)
  have c4: "parseMessage sample_JSON_parse sample_ToString ?broken = Inl ?failure"
    using parseMessage_unwraps_envelope
      [of sample_JSON_parse sample_ToString ?broken "''Unexpected token''"
          "[(''Type'', JString ''Notification''), (''Message'', JString ''junk'')]" "''junk''",
        THEN conjunct2, THEN conjunct2, THEN conjunct1, THEN mp, OF hbroken]
    by simp
  have step: "process_records sample_JSON_parse sample_ToString sample_logic
         (?bad # [?env]) ([], [], 0)
     = process_records sample_JSON_parse sample_ToString sample_logic [?env]
         ([] @ [\<lparr>entry_messageId = messageId ?bad, status = error (message ?failure)\<rparr>],
          [] @ [\<lparr>itemIdentifier = messageId ?bad\<rparr>], 0)"
    by (rule parseMessage_unwraps_envelope
      [of sample_JSON_parse sample_ToString ?bad _ _ _ ?failure sample_logic "[?env]" "[]" "[]" 0,
        THEN conjunct2, THEN conjunct2, THEN conjunct2, THEN mp, OF c3])
  have ok: "try_record sample_JSON_parse sample_ToString sample_logic ?env 0 = (Inr (JNumber 1), 1)"
    by (simp add: try_record_def c12 sample_logic_def get_prop_def)
  have ids: "messageId ?bad = ''m-2''" "messageId ?env = ''m-1''"
    by (simp_all add: record_with_body_def)
  have c5: "process_records sample_JSON_parse sample_ToString sample_logic [?bad, ?env] ([], [], 0)
     = ([\<lparr>entry_messageId = ''m-2'',
           status = error ''Failed to parse message: Unexpected token''\<rparr>,
         \<lparr>entry_messageId = ''m-1'', status = success (JNumber 1)\<rparr>],
        [\<lparr>itemIdentifier = ''m-2''\<rparr>], 1)"
    unfolding step by (simp add: ok ids)
  show ?thesis
    by (intro conjI c12 [THEN conjunct1] c12 [THEN conjunct2] c3 c4 c5)
qed

section \<open>Context Source\<close>




section \<open>Fallback generator\<close>

text \<open>
  C8. Every identifier the fallback generators produce (\<open>generateW3CTraceparent\<close> of the
  publisher, \<open>generateFallbackTrace\<close> of the library), from any sequence of
  \<open>Math.random\<close> values in \<open>[0, 1)\<close> and at any draw count, is \<open>00-T-S-01\<close> with \<open>T\<close> of
  exactly 32 and \<open>S\<close> of exactly 16 lowercase hexadecimal characters: version \<open>00\<close>,
  sampled flag \<open>01\<close>, well-formed. Serialising the identifier (\<open>getTraceContext\<close> on the
  span context with these ids and the sampled bit) gives the generated text, and parsing
  that text (\<open>extractIncomingTraceContext\<close> on a record carrying it) gives the identifier
  back. The generators are total functions: they return for every input.
\<close>

theorem generated_identifier_well_formed:
  assumes "in_unit_interval rnd"
  shows "(let T = random_hex rnd n 32; S = random_hex rnd (n + 32) 16;
              g = ''00-'' @ T @ ''-'' @ S @ ''-01''
          in generateW3CTraceparent rnd n = (g, n + 48)
             \<and> generateFallbackTrace rnd n = (g, n + 48)
             \<and> length T = 32 \<and> length S = 16
             \<and> list_all is_lower_hex T \<and> list_all is_lower_hex S
             \<and> split_on CHR ''-'' g = [''00'', T, S, ''01'']
             \<and> well_formed g
             \<and> getTraceContext (Some \<lparr>sc_traceId = T, sc_spanId = S, traceFlags = 1\<rparr>)
                 = Some \<lparr>traceId = Some T, spanId = Some S, traceparent = g\<rparr>
             \<and> extractIncomingTraceContext (sqs_record [''traceparent'' \<mapsto> string_attr g])
                 = Some \<lparr>traceId = Some T, spanId = Some S, traceparent = g\<rparr>)"
proof -
  define T where "T = random_hex rnd n 32"
  define S where "S = random_hex rnd (n + 32) 16"
  define g where "g = ''00-'' @ T @ ''-'' @ S @ ''-01''"
  have lT: "length T = 32" and lS: "length S = 16"
    using assms by (simp_all add: T_def S_def random_hex_length)
  have hT: "list_all is_lower_hex T" and hS: "list_all is_lower_hex S"
    using assms by (simp_all add: T_def S_def random_hex_lower_hex)
  have gen1: "generateW3CTraceparent rnd n = (g, n + 48)"
    by (simp add: generateW3CTraceparent_def T_def S_def g_def)
  have gen2: "generateFallbackTrace rnd n = (g, n + 48)"
    by (simp add: generateFallbackTrace_def T_def S_def g_def)
  have sp: "split_on CHR ''-'' g = [''00'', T, S, ''01'']"
    using split_on_rendered [of T S "''01''"] hT hS
    by (simp add: g_def lower_hex_no_dash)
  have wf: "well_formed g"
    by (simp add: well_formed_def sp lT lS hT hS is_lower_hex_def)
  have ser: "getTraceContext (Some \<lparr>sc_traceId = T, sc_spanId = S, traceFlags = 1\<rparr>)
             = Some \<lparr>traceId = Some T, spanId = Some S, traceparent = g\<rparr>"
    by (simp add: getTraceContext_def render_traceparent_def flags_text_def g_def)
  have "g \<noteq> []" by (simp add: g_def)
  then have par: "extractIncomingTraceContext (sqs_record [''traceparent'' \<mapsto> string_attr g])
             = Some \<lparr>traceId = Some T, spanId = Some S, traceparent = g\<rparr>"
    by (simp add: extract_primary_slot context_of_text_def sp nth_opt_def)
  from gen1 gen2 lT lS hT hS sp wf ser par show ?thesis
    unfolding Let_def T_def [symmetric] S_def [symmetric] g_def [symmetric] by blast
qed

theorem generated_identifier_well_formed_witness:
  "in_unit_interval sample_rnd
   \<and> (let T = random_hex sample_rnd 0 32; S = random_hex sample_rnd (0 + 32) 16;
              g = ''00-'' @ T @ ''-'' @ S @ ''-01''
          in generateW3CTraceparent sample_rnd 0 = (g, 0 + 48)
             \<and> generateFallbackTrace sample_rnd 0 = (g, 0 + 48)
             \<and> length T = 32 \<and> length S = 16
             \<and> list_all is_lower_hex T \<and> list_all is_lower_hex S
             \<and> split_on CHR ''-'' g = [''00'', T, S, ''01'']
             \<and> well_formed g
             \<and> getTraceContext (Some \<lparr>sc_traceId = T, sc_spanId = S, traceFlags = 1\<rparr>)
                 = Some \<lparr>traceId = Some T, spanId = Some S, traceparent = g\<rparr>
             \<and> extractIncomingTraceContext (sqs_record [''traceparent'' \<mapsto> string_attr g])
                 = Some \<lparr>traceId = Some T, spanId = Some S, traceparent = g\<rparr>)
   \<and> fst (generateW3CTraceparent sample_rnd 0)
       = ''00-0123456789abcdef0123456789abcdef-0123456789abcdef-01''"
proof -
  have h: "in_unit_interval sample_rnd"
    by (simp add: in_unit_interval_def sample_rnd_def)
  have v: "fst (generateW3CTraceparent sample_rnd 0)
       = ''00-0123456789abcdef0123456789abcdef-0123456789abcdef-01''"
    by (simp add: generateW3CTraceparent_def random_hex_def random_hex_digit_def
        int_toString16_def sample_rnd_def hex_digit_def upt_rec)
  from h generated_identifier_well_formed [OF h, of 0] v show ?thesis by blast
qed

section \<open>Codec round trip\<close>

text \<open>
  C9. The claim: for every well-formed text, parsing, serialising the parse result and
  parsing again gives what parsing once gives. The serialiser writes the version as \<open>00\<close>
  and the flags as \<open>01\<close> or \<open>00\<close> after bit 0 of the flags byte, so a well-formed text
  with any other flags segment does not come back: for the text below, with flags \<open>03\<close>,
  the second parse holds a text ending in \<open>-01\<close> (flags byte 3, the one the text
  carries) or \<open>-00\<close> (a flags byte with bit 0 clear), never the original.
\<close>

theorem round_trip_changes_flags_03:
  "well_formed ''00-68dde6a91b7146f84c4bc23f54f17b0f-50d362e330737a0f-03''
   \<and> parse_text ''00-68dde6a91b7146f84c4bc23f54f17b0f-50d362e330737a0f-03''
       = Some \<lparr>traceId = Some ''68dde6a91b7146f84c4bc23f54f17b0f'',
                spanId = Some ''50d362e330737a0f'',
                traceparent = ''00-68dde6a91b7146f84c4bc23f54f17b0f-50d362e330737a0f-03''\<rparr>
   \<and> round_trip 3 ''00-68dde6a91b7146f84c4bc23f54f17b0f-50d362e330737a0f-03''
       = Some \<lparr>traceId = Some ''68dde6a91b7146f84c4bc23f54f17b0f'',
                spanId = Some ''50d362e330737a0f'',
                traceparent = ''00-68dde6a91b7146f84c4bc23f54f17b0f-50d362e330737a0f-01''\<rparr>
   \<and> round_trip 2 ''00-68dde6a91b7146f84c4bc23f54f17b0f-50d362e330737a0f-03''
       = Some \<lparr>traceId = Some ''68dde6a91b7146f84c4bc23f54f17b0f'',
                spanId = Some ''50d362e330737a0f'',
                traceparent = ''00-68dde6a91b7146f84c4bc23f54f17b0f-50d362e330737a0f-00''\<rparr>
   \<and> round_trip 3 ''00-68dde6a91b7146f84c4bc23f54f17b0f-50d362e330737a0f-03''
       \<noteq> parse_text ''00-68dde6a91b7146f84c4bc23f54f17b0f-50d362e330737a0f-03''"
  by (simp add: well_formed_def is_lower_hex_def round_trip_def parse_text_def
      serialize_with_def getTraceContext_def render_traceparent_def flags_text_def
      extract_primary_slot context_of_text_def nth_opt_def)

text \<open>
  C9 as amended. For every well-formed text whose version segment is \<open>00\<close> and whose
  flags segment is the rendering (\<open>01\<close> or \<open>00\<close>) of the sampled bit it is serialised
  with, parsing, serialising the parse result and parsing again gives what parsing once
  gives. For every well-formed text and any flags byte, the trace id and the span id of
  the second parse are those of the first.
\<close>

theorem round_trip_stable_for_version_00_and_sampled_bit:
  "(well_formed tp \<and> nth_opt (split_on CHR ''-'' tp) 0 = Some ''00''
      \<and> nth_opt (split_on CHR ''-'' tp) 3 = Some (flags_text fl)
      \<longrightarrow> round_trip fl tp = parse_text tp)
   \<and> (well_formed tp
      \<longrightarrow> map_option traceId (round_trip fl tp) = map_option traceId (parse_text tp)
          \<and> map_option spanId (round_trip fl tp) = map_option spanId (parse_text tp))"
proof (cases "well_formed tp")
  case False
  then show ?thesis by simp
next
  case True
  then obtain v tid sid f where sp: "split_on CHR ''-'' tp = [v, tid, sid, f]"
    and tp: "tp = v @ CHR ''-'' # tid @ CHR ''-'' # sid @ CHR ''-'' # f"
    and nd: "CHR ''-'' \<notin> set tid" "CHR ''-'' \<notin> set sid"
    by (rule well_formed_parts)
  note rt = round_trip_well_formed [OF sp nd, of fl]
  note pt = parse_text_well_formed [OF sp]
  have ids: "map_option traceId (round_trip fl tp) = map_option traceId (parse_text tp)
          \<and> map_option spanId (round_trip fl tp) = map_option spanId (parse_text tp)"
    by (simp add: rt pt)
  have full: "round_trip fl tp = parse_text tp"
    if "nth_opt (split_on CHR ''-'' tp) 0 = Some ''00''"
       "nth_opt (split_on CHR ''-'' tp) 3 = Some (flags_text fl)"
  proof -
    from that have "v = ''00''" "f = flags_text fl" by (simp_all add: sp nth_opt_def)
    with tp have "tp = ''00-'' @ tid @ ''-'' @ sid @ ''-'' @ flags_text fl" by simp
    with rt pt show ?thesis by simp
  qed
  from ids full show ?thesis by blast
qed

theorem round_trip_stable_for_version_00_and_sampled_bit_witness:
  "well_formed ''00-68dde6a91b7146f84c4bc23f54f17b0f-50d362e330737a0f-01''
   \<and> round_trip 1 ''00-68dde6a91b7146f84c4bc23f54f17b0f-50d362e330737a0f-01''
       = parse_text ''00-68dde6a91b7146f84c4bc23f54f17b0f-50d362e330737a0f-01''
   \<and> well_formed ''00-68dde6a91b7146f84c4bc23f54f17b0f-50d362e330737a0f-03''
   \<and> map_option traceId (round_trip 3 ''00-68dde6a91b7146f84c4bc23f54f17b0f-50d362e330737a0f-03'')
       = map_option traceId (parse_text ''00-68dde6a91b7146f84c4bc23f54f17b0f-50d362e330737a0f-03'')
   \<and> map_option spanId (round_trip 3 ''00-68dde6a91b7146f84c4bc23f54f17b0f-50d362e330737a0f-03'')
       = map_option spanId (parse_text ''00-68dde6a91b7146f84c4bc23f54f17b0f-50d362e330737a0f-03'')"
proof -
  let ?a = "''00-68dde6a91b7146f84c4bc23f54f17b0f-50d362e330737a0f-01''"
  let ?b = "''00-68dde6a91b7146f84c4bc23f54f17b0f-50d362e330737a0f-03''"
  have wa: "well_formed ?a" and wb: "well_formed ?b"
    by (simp_all add: well_formed_def is_lower_hex_def)
  have h0: "nth_opt (split_on CHR ''-'' ?a) 0 = Some ''00''"
    and h3: "nth_opt (split_on CHR ''-'' ?a) 3 = Some (flags_text 1)"
    by (simp_all add: nth_opt_def flags_text_def)
  from round_trip_stable_for_version_00_and_sampled_bit [of ?a 1] wa h0 h3
  have ra: "round_trip 1 ?a = parse_text ?a" by blast
  from round_trip_stable_for_version_00_and_sampled_bit [of ?b 3] wb
  have rb: "map_option traceId (round_trip 3 ?b) = map_option traceId (parse_text ?b)
          \<and> map_option spanId (round_trip 3 ?b) = map_option spanId (parse_text ?b)" by blast
  from wa wb ra rb show ?thesis by blast
qed

section \<open>Published attribute map\<close>

text \<open>
  C10. The claim: for every call to \<open>publish\<close>, the published attribute map holds the
  two carrier entries, and every other attribute the caller supplied. The command is
  built as \<open>{TopicArn, Message, MessageAttributes: messageAttributes, ...options.publishOptions}\<close>,
  so a \<open>MessageAttributes\<close> field inside \<open>options.publishOptions\<close> replaces the map the
  library built: here the published map has neither carrier.
\<close>

theorem publish_options_replace_attribute_map:
  "MessageAttributes
     (fst (publish (\<lambda>m. m) sample_rnd 0 ''arn:aws:sns:us-east-1:000000000000:orders''
             ''{}'' overriding_options)) ''traceparent'' = None
   \<and> MessageAttributes
     (fst (publish (\<lambda>m. m) sample_rnd 0 ''arn:aws:sns:us-east-1:000000000000:orders''
             ''{}'' overriding_options)) ''w3c_traceparent_orig'' = None"
  by (simp add: publish_attributes overriding_options_def)

text \<open>
  C10 as amended. For every call to \<open>publish\<close> whose \<open>options.publishOptions\<close> carries no
  \<open>MessageAttributes\<close> field, the published attribute map holds the \<open>traceparent\<close> and
  \<open>w3c_traceparent_orig\<close> entries with the library's values (written over any entries of
  these names in \<open>options.messageAttributes\<close>), and every attribute of another name is
  exactly as the caller supplied it.
\<close>

theorem publish_attribute_frame:
  assumes "case publishOptions options of None \<Rightarrow> True | Some po \<Rightarrow> po_MessageAttributes po = None"
  shows "MessageAttributes (fst (publish JSON_stringify rnd n topicArn msg options)) ''traceparent''
         = Some \<lparr>DataType = ''String'', StringValue = fst (generateFallbackTrace rnd n)\<rparr>
       \<and> MessageAttributes (fst (publish JSON_stringify rnd n topicArn msg options))
           ''w3c_traceparent_orig''
         = Some \<lparr>DataType = ''String'', StringValue = fst (generateFallbackTrace rnd (n + 48))\<rparr>
       \<and> (\<forall>name. name \<noteq> ''traceparent'' \<and> name \<noteq> ''w3c_traceparent_orig''
            \<longrightarrow> MessageAttributes (fst (publish JSON_stringify rnd n topicArn msg options)) name
                = (case opt_messageAttributes options of None \<Rightarrow> None | Some m \<Rightarrow> m name))"
proof -
  have "(case publishOptions options of None \<Rightarrow> None | Some po \<Rightarrow> po_MessageAttributes po) = None"
    using assms by (simp split: option.splits)
  then show ?thesis
    by (simp add: publish_attributes split: option.splits)
qed

theorem publish_attribute_frame_witness:
  "(case publishOptions caller_options of None \<Rightarrow> True | Some po \<Rightarrow> po_MessageAttributes po = None)
   \<and> MessageAttributes (fst (publish (\<lambda>m. m) sample_rnd 0 ''topic'' ''{}'' caller_options))
       ''traceparent''
     = Some \<lparr>DataType = ''String'', StringValue = fst (generateFallbackTrace sample_rnd 0)\<rparr>
   \<and> MessageAttributes (fst (publish (\<lambda>m. m) sample_rnd 0 ''topic'' ''{}'' caller_options))
       ''w3c_traceparent_orig''
     = Some \<lparr>DataType = ''String'', StringValue = fst (generateFallbackTrace sample_rnd (0 + 48))\<rparr>
   \<and> MessageAttributes (fst (publish (\<lambda>m. m) sample_rnd 0 ''topic'' ''{}'' caller_options))
       ''orderId''
     = Some \<lparr>DataType = ''String'', StringValue = ''ORD-1''\<rparr>
   \<and> fst (generateFallbackTrace sample_rnd 0)
     = ''00-0123456789abcdef0123456789abcdef-0123456789abcdef-01''"
proof -
  have h: "case publishOptions caller_options of
             None \<Rightarrow> True | Some po \<Rightarrow> po_MessageAttributes po = None"
    by (simp add: caller_options_def)
  note f = publish_attribute_frame [OF h, of "\<lambda>m. m" sample_rnd 0 "''topic''" "''{}''"]
  from f have other: "MessageAttributes
       (fst (publish (\<lambda>m. m) sample_rnd 0 ''topic'' ''{}'' caller_options)) ''orderId''
     = Some \<lparr>DataType = ''String'', StringValue = ''ORD-1''\<rparr>"
    by (simp add: caller_options_def)
  have v: "fst (generateFallbackTrace sample_rnd 0)
     = ''00-0123456789abcdef0123456789abcdef-0123456789abcdef-01''"
    by (simp add: generateFallbackTrace_def random_hex_def random_hex_digit_def
        int_toString16_def sample_rnd_def hex_digit_def upt_rec)
  from h f other v show ?thesis by blast
qed

end
